theory Spec2Isabelle
  imports Complex_Main
begin

text \<open>
  A model of the egg tracker (index.js, db.js): the rarity classifier, the interpreter of
  webhook payloads, the settings resolver, the webhook handler and the period resolver
  of the slash commands. index.js holds the program twice; the model follows the first
  copy, and line numbers refer to it.
\<close>

section \<open>JavaScript numbers and the rarity classifier\<close>

text \<open>
  A JavaScript number is an IEEE double: a finite value, one of the two infinities, or
  NaN. The finite doubles are rationals, so a finite number is modelled by its exact real
  value; rounding to 53 bits is not modelled. Every comparison with NaN is false.
\<close>

datatype jsnum = NaN | NegInf | Fin real | PosInf

fun jsLt :: "jsnum \<Rightarrow> jsnum \<Rightarrow> bool" where
  "jsLt (Fin a) (Fin b) = (a < b)"
| "jsLt (Fin a) PosInf = True"
| "jsLt NegInf (Fin b) = True"
| "jsLt NegInf PosInf = True"
| "jsLt _ _ = False"

fun jsEq :: "jsnum \<Rightarrow> jsnum \<Rightarrow> bool" where
  "jsEq (Fin a) (Fin b) = (a = b)"
| "jsEq PosInf PosInf = True"
| "jsEq NegInf NegInf = True"
| "jsEq _ _ = False"

definition jsLe :: "jsnum \<Rightarrow> jsnum \<Rightarrow> bool" where
  "jsLe a b = (jsLt a b \<or> jsEq a b)"

definition jsGe :: "jsnum \<Rightarrow> jsnum \<Rightarrow> bool" where
  "jsGe a b = jsLe b a"

datatype tier = semi_huge | huge | semi_titan | titan | godly

text \<open>
  \<^verbatim>\<open>classifyRarity(kg)\<close> (index.js, lines 47-54): five guarded returns in the
  source's order, \<^verbatim>\<open>null\<close> (here \<open>None\<close>) when none fires.
\<close>

definition classifyRarity :: "jsnum \<Rightarrow> tier option" where
  "classifyRarity kg =
     (if jsGe kg (Fin 4.0) \<and> jsLt kg (Fin 5.0) then Some semi_huge
      else if jsGe kg (Fin 5.0) \<and> jsLt kg (Fin 7.0) then Some huge
      else if jsGe kg (Fin 7.0) \<and> jsLt kg (Fin 8.0) then Some semi_titan
      else if jsGe kg (Fin 8.0) \<and> jsLt kg (Fin 9.0) then Some titan
      else if jsGe kg (Fin 9.0) \<and> jsLe kg (Fin 15.0) then Some godly
      else None)"

text \<open>The bands of the specification's table, as sets of weights.\<close>

fun band :: "tier \<Rightarrow> real set" where
  "band semi_huge = {4 ..< 5}"
| "band huge = {5 ..< 7}"
| "band semi_titan = {7 ..< 8}"
| "band titan = {8 ..< 9}"
| "band godly = {9 .. 15}"

section \<open>JavaScript strings\<close>

text \<open>
  A string is a list of characters. The model covers ASCII text: a character outside ASCII
  is carried along unchanged, is no letter, no digit and no white space. Every pattern
  the program looks for (\<^verbatim>\<open>from\<close>, \<^verbatim>\<open>weight\<close>, \<^verbatim>\<open>egg\<close>,
  \<^verbatim>\<open>kg\<close>, \<^verbatim>\<open>Hatched From\<close>, \<^verbatim>\<open>UTC\<close>) is ASCII.
\<close>

text \<open>White space of \<^verbatim>\<open>\s\<close> and \<^verbatim>\<open>trim\<close>: TAB, LF, VT, FF, CR and space.\<close>

definition isSpace :: "char \<Rightarrow> bool" where
  "isSpace c = (c \<in> set [CHR 0x09, CHR 0x0A, CHR 0x0B, CHR 0x0C, CHR 0x0D, CHR '' ''])"

definition isLineTerminator :: "char \<Rightarrow> bool" where
  "isLineTerminator c = (c = CHR 0x0A \<or> c = CHR 0x0D)"

definition isDigit :: "char \<Rightarrow> bool" where
  "isDigit c = (c \<in> set ''0123456789'')"

definition toLowerChar :: "char \<Rightarrow> char" where
  "toLowerChar c =
     (case map_of (zip ''ABCDEFGHIJKLMNOPQRSTUVWXYZ'' ''abcdefghijklmnopqrstuvwxyz'') c of
        Some l \<Rightarrow> l
      | None \<Rightarrow> c)"

definition toLowerCase :: "string \<Rightarrow> string" where
  "toLowerCase s = map toLowerChar s"

fun startsWith :: "string \<Rightarrow> string \<Rightarrow> bool" where
  "startsWith s [] = True"
| "startsWith [] (p # ps) = False"
| "startsWith (c # cs) (p # ps) = (c = p \<and> startsWith cs ps)"

definition endsWith :: "string \<Rightarrow> string \<Rightarrow> bool" where
  "endsWith s p = startsWith (rev s) (rev p)"

text \<open>\<^verbatim>\<open>s.includes(sub)\<close>: \<open>sub\<close> occurs somewhere in \<open>s\<close>.\<close>

fun strIncludes :: "string \<Rightarrow> string \<Rightarrow> bool" where
  "strIncludes [] sub = (sub = [])"
| "strIncludes (c # cs) sub = (startsWith (c # cs) sub \<or> strIncludes cs sub)"

definition trim :: "string \<Rightarrow> string" where
  "trim s = rev (dropWhile isSpace (rev (dropWhile isSpace s)))"

text \<open>
  \<^verbatim>\<open>s.replace(/egg/gi, "")\<close>: one pass from the left; where the next three
  characters read \<^verbatim>\<open>egg\<close> in any case they are dropped and the scan goes on
  behind them, otherwise one character is kept.
\<close>

fun stripEgg :: "string \<Rightarrow> string" where
  "stripEgg (a # b # c # rest) =
     (if map toLowerChar [a, b, c] = ''egg'' then stripEgg rest
      else a # stripEgg (b # c # rest))"
| "stripEgg s = s"

subsection \<open>Reading numbers\<close>

text \<open>
  The value of a digit or letter in a base up to 36; 36 for any other character.
\<close>

definition digitVal :: "char \<Rightarrow> nat" where
  "digitVal c =
     length (takeWhile (\<lambda>x. x \<noteq> toLowerChar c) ''0123456789abcdefghijklmnopqrstuvwxyz'')"

definition digitsValue :: "nat \<Rightarrow> string \<Rightarrow> nat" where
  "digitsValue radix ds = foldl (\<lambda>a c. radix * a + digitVal c) 0 ds"

definition scale10 :: "real \<Rightarrow> int \<Rightarrow> real" where
  "scale10 x e = (if 0 \<le> e then x * 10 ^ nat e else x / 10 ^ nat (- e))"

text \<open>The value of an exponent part at the head of a string, 0 when there is none.\<close>

definition exponentPart :: "string \<Rightarrow> int" where
  "exponentPart s =
     (case s of
        [] \<Rightarrow> 0
      | e # r \<Rightarrow>
          if e = CHR ''e'' \<or> e = CHR ''E'' then
            (case r of
               [] \<Rightarrow> 0
             | sg # r' \<Rightarrow>
                 if (sg = CHR ''+'' \<or> sg = CHR ''-'') \<and> takeWhile isDigit r' \<noteq> [] then
                   (if sg = CHR ''-'' then - int (digitsValue 10 (takeWhile isDigit r'))
                    else int (digitsValue 10 (takeWhile isDigit r')))
                 else int (digitsValue 10 (takeWhile isDigit r)))
          else 0)"

text \<open>
  The longest prefix that is an unsigned decimal literal: digits, an optional fraction,
  an optional exponent; \<^verbatim>\<open>5.\<close> and \<^verbatim>\<open>.5\<close> are literals, \<^verbatim>\<open>.\<close> is not.
\<close>

definition unsignedDecimal :: "string \<Rightarrow> real option" where
  "unsignedDecimal s =
     (let ip = takeWhile isDigit s; r = dropWhile isDigit s in
      case r of
        [] \<Rightarrow> if ip = [] then None else Some (real (digitsValue 10 ip))
      | c # r' \<Rightarrow>
          if c = CHR ''.'' then
            (let fp = takeWhile isDigit r'; r'' = dropWhile isDigit r' in
             if ip = [] \<and> fp = [] then None
             else Some (scale10 (real (digitsValue 10 ip)
                                  + real (digitsValue 10 fp) / 10 ^ length fp)
                                (exponentPart r'')))
          else if ip = [] then None
          else Some (scale10 (real (digitsValue 10 ip)) (exponentPart r)))"

definition unsignedLiteral :: "string \<Rightarrow> jsnum" where
  "unsignedLiteral s =
     (if startsWith s ''Infinity'' then PosInf
      else case unsignedDecimal s of None \<Rightarrow> NaN | Some x \<Rightarrow> Fin x)"

fun jsNeg :: "jsnum \<Rightarrow> jsnum" where
  "jsNeg NaN = NaN"
| "jsNeg NegInf = PosInf"
| "jsNeg (Fin x) = Fin (- x)"
| "jsNeg PosInf = NegInf"

text \<open>
  \<^verbatim>\<open>parseFloat(s)\<close>: leading white space is skipped, then the longest prefix that
  is a signed decimal literal is read; NaN when there is none. The value is exact (the
  rounding to a double is not modelled).
\<close>

definition parseFloat :: "string \<Rightarrow> jsnum" where
  "parseFloat s =
     (case dropWhile isSpace s of
        [] \<Rightarrow> NaN
      | c # r \<Rightarrow>
          if c = CHR ''-'' then jsNeg (unsignedLiteral r)
          else if c = CHR ''+'' then unsignedLiteral r
          else unsignedLiteral (c # r))"

text \<open>
  \<^verbatim>\<open>parseInt(s, radix)\<close>; \<open>None\<close> is NaN, and a radix of \<open>None\<close> is a call
  with one argument. Leading white space and a sign are skipped; with no radix (or radix
  16) a prefix \<^verbatim>\<open>0x\<close> selects base 16; the longest run of digits of the base is
  read, whatever follows it.
\<close>

definition parseInt :: "string \<Rightarrow> nat option \<Rightarrow> int option" where
  "parseInt s radix =
     (let t = dropWhile isSpace s;
          negative = startsWith t ''-'';
          t1 = (if startsWith t ''-'' \<or> startsWith t ''+'' then drop 1 t else t);
          r0 = (case radix of None \<Rightarrow> 0 | Some r \<Rightarrow> r)
      in if r0 \<noteq> 0 \<and> (r0 < 2 \<or> 36 < r0) then None
         else
           (let hex = ((r0 = 0 \<or> r0 = 16) \<and> (startsWith t1 ''0x'' \<or> startsWith t1 ''0X''));
                base = (if hex then 16 else if r0 = 0 then 10 else r0);
                t2 = (if hex then drop 2 t1 else t1);
                z = takeWhile (\<lambda>c. digitVal c < base) t2
            in if z = [] then None
               else Some ((if negative then - 1 else 1) * int (digitsValue base z))))"

section \<open>Regular expressions\<close>

text \<open>
  The program's four patterns use character classes, sequence, the greedy quantifiers
  \<^verbatim>\<open>*\<close>, \<^verbatim>\<open>+\<close>, \<^verbatim>\<open>?\<close>, \<^verbatim>\<open>{1,2}\<close> and one capture that is read
  (group 1). \<open>rxMatch r s\<close> lists every way \<open>r\<close> matches a prefix of \<open>s\<close>, in the
  order a backtracking matcher tries them (a greedy quantifier takes the longer match
  first): each entry is the text group 1 captured, if it took part, and the rest of the
  input. An iteration of \<^verbatim>\<open>*\<close> that consumes nothing is not repeated. No pattern
  of the program captures inside a repetition, and what an iteration captures is not
  kept.
\<close>

datatype rx =
    Eps
  | Cls "char \<Rightarrow> bool"
  | Cat rx rx
  | Alt rx rx
  | Star rx
  | Cap rx

function (sequential) rxMatch :: "rx \<Rightarrow> string \<Rightarrow> (string option \<times> string) list" where
  "rxMatch Eps s = [(None, s)]"
| "rxMatch (Cls p) [] = []"
| "rxMatch (Cls p) (c # cs) = (if p c then [(None, cs)] else [])"
| "rxMatch (Cat a b) s =
     concat (map (\<lambda>(g, r). map (\<lambda>(g', r'). (case g' of None \<Rightarrow> g | Some x \<Rightarrow> Some x, r'))
                                (rxMatch b r))
                 (rxMatch a s))"
| "rxMatch (Alt a b) s = rxMatch a s @ rxMatch b s"
| "rxMatch (Star a) s =
     concat (map (\<lambda>(g, r). if length r < length s then rxMatch (Star a) r else [])
                 (rxMatch a s))
     @ [(None, s)]"
| "rxMatch (Cap a) s =
     map (\<lambda>(g, r). (Some (take (length s - length r) s), r)) (rxMatch a s)"
  by pat_completeness auto
termination
  by (relation "inv_image (less_than <*lex*> less_than) (\<lambda>(r, s). (size r, length s))") auto

text \<open>
  \<^verbatim>\<open>s.match(r)\<close> for a pattern without the \<^verbatim>\<open>g\<close> flag: the first match at the
  leftmost position that has one. \<open>None\<close> is \<^verbatim>\<open>null\<close>; otherwise the result is
  \<^verbatim>\<open>m[1]\<close>, itself \<open>None\<close> when group 1 took no part (\<^verbatim>\<open>undefined\<close>).
\<close>

fun rxExec :: "rx \<Rightarrow> string \<Rightarrow> string option option" where
  "rxExec r [] = (case rxMatch r [] of [] \<Rightarrow> None | (g, _) # _ \<Rightarrow> Some g)"
| "rxExec r (c # cs) =
     (case rxMatch r (c # cs) of [] \<Rightarrow> rxExec r cs | (g, _) # _ \<Rightarrow> Some g)"

definition Chr :: "char \<Rightarrow> rx" where
  "Chr c = Cls (\<lambda>x. x = c)"

text \<open>A letter under the \<^verbatim>\<open>i\<close> flag.\<close>

definition ChrI :: "char \<Rightarrow> rx" where
  "ChrI c = Cls (\<lambda>x. toLowerChar x = toLowerChar c)"

fun LitI :: "string \<Rightarrow> rx" where
  "LitI [] = Eps"
| "LitI (c # cs) = Cat (ChrI c) (LitI cs)"

definition OneOrMore :: "rx \<Rightarrow> rx" where
  "OneOrMore r = Cat r (Star r)"

definition Optional :: "rx \<Rightarrow> rx" where
  "Optional r = Alt r Eps"

definition Digit :: rx where
  "Digit = Cls isDigit"

definition Space :: rx where
  "Space = Cls isSpace"

text \<open>\<^verbatim>\<open>.\<close>: any character but a line terminator.\<close>

definition Dot :: rx where
  "Dot = Cls (\<lambda>c. \<not> isLineTerminator c)"

text \<open>\<^verbatim>\<open>/([0-9]+(?:\.[0-9]+)?)/\<close> (index.js, line 312).\<close>

definition numberRx :: rx where
  "numberRx =
     Cap (Cat (OneOrMore Digit) (Optional (Cat (Chr CHR ''.'') (OneOrMore Digit))))"

text \<open>\<^verbatim>\<open>/([0-9]+(\.[0-9]+)?)\s*kg/i\<close> (index.js, line 326).\<close>

definition kgRx :: rx where
  "kgRx =
     Cat (Cap (Cat (OneOrMore Digit) (Optional (Cat (Chr CHR ''.'') (OneOrMore Digit)))))
         (Cat (Star Space) (LitI ''kg''))"

text \<open>\<^verbatim>\<open>/Hatched From\s*[:\-]\s*(.+)/i\<close> (index.js, line 322).\<close>

definition hatchedFromRx :: rx where
  "hatchedFromRx =
     Cat (LitI ''Hatched From'')
         (Cat (Star Space)
              (Cat (Cls (\<lambda>c. c = CHR '':'' \<or> c = CHR ''-''))
                   (Cat (Star Space) (Cap (OneOrMore Dot)))))"

text \<open>\<^verbatim>\<open>/UTC([+-]\d{1,2})/i\<close> (index.js, lines 216 and 250).\<close>

definition utcRx :: rx where
  "utcRx =
     Cat (LitI ''UTC'')
         (Cap (Cat (Cls (\<lambda>c. c = CHR ''+'' \<or> c = CHR ''-''))
                   (Cat Digit (Optional Digit))))"

section \<open>JSON values and the JavaScript operations on them\<close>

text \<open>
  The body of a request, as \<^verbatim>\<open>express.json()\<close> hands it to the handler: a parsed
  JSON value. An object is the list of its own properties in the order JavaScript
  enumerates them (keys are distinct). \<^verbatim>\<open>undefined\<close> is no JSON value: a value that
  may be undefined is a \<open>json option\<close> with \<open>None\<close> for \<^verbatim>\<open>undefined\<close>.
\<close>

datatype json =
    JNull
  | JBool bool
  | JNum real
  | JStr string
  | JArr "json list"
  | JObj "(string \<times> json) list"

datatype js_error = TypeError | RangeError | StoreError

text \<open>
  How the engine prints a finite number (\<^verbatim>\<open>Number.prototype.toString\<close>, also used
  by \<^verbatim>\<open>JSON.stringify\<close>) is outside the repository and is a parameter.
\<close>

type_synonym numfmt = "real \<Rightarrow> string"

fun truthy :: "json option \<Rightarrow> bool" where
  "truthy None = False"
| "truthy (Some JNull) = False"
| "truthy (Some (JBool b)) = b"
| "truthy (Some (JNum n)) = (n \<noteq> 0)"
| "truthy (Some (JStr s)) = (s \<noteq> [])"
| "truthy (Some (JArr xs)) = True"
| "truthy (Some (JObj kvs)) = True"

fun truthyNum :: "jsnum \<Rightarrow> bool" where
  "truthyNum NaN = False"
| "truthyNum (Fin x) = (x \<noteq> 0)"
| "truthyNum NegInf = True"
| "truthyNum PosInf = True"

text \<open>
  \<^verbatim>\<open>v.k\<close> for a value \<open>v\<close> that is neither \<^verbatim>\<open>null\<close> nor \<^verbatim>\<open>undefined\<close>,
  and a property name \<open>k\<close> the program reads (\<^verbatim>\<open>embeds\<close>, \<^verbatim>\<open>length\<close>,
  \<^verbatim>\<open>fields\<close>, \<^verbatim>\<open>name\<close>, \<^verbatim>\<open>value\<close>, \<^verbatim>\<open>title\<close>, \<^verbatim>\<open>content\<close>,
  \<^verbatim>\<open>channel_id\<close>): an object's own property; the length of an array or a string;
  \<^verbatim>\<open>undefined\<close> otherwise.
\<close>

fun getProp :: "json \<Rightarrow> string \<Rightarrow> json option" where
  "getProp (JObj kvs) k = map_of kvs k"
| "getProp (JArr xs) k = (if k = ''length'' then Some (JNum (real (length xs))) else None)"
| "getProp (JStr s) k = (if k = ''length'' then Some (JNum (real (length s))) else None)"
| "getProp _ k = None"

text \<open>\<^verbatim>\<open>v[0]\<close>, for \<open>v\<close> neither \<^verbatim>\<open>null\<close> nor \<^verbatim>\<open>undefined\<close>.\<close>

fun index0 :: "json \<Rightarrow> json option" where
  "index0 (JArr []) = None"
| "index0 (JArr (x # xs)) = Some x"
| "index0 (JStr []) = None"
| "index0 (JStr (c # cs)) = Some (JStr [c])"
| "index0 (JObj kvs) = map_of kvs ''0''"
| "index0 _ = None"

fun joinWith :: "string \<Rightarrow> string list \<Rightarrow> string" where
  "joinWith sep [] = []"
| "joinWith sep [x] = x"
| "joinWith sep (x # y # ys) = x @ sep @ joinWith sep (y # ys)"

text \<open>
  \<^verbatim>\<open>v.toString()\<close>. An array joins its elements with commas (\<^verbatim>\<open>null\<close> gives the
  empty string); an object gives \<^verbatim>\<open>[object Object]\<close>, unless it has a property of
  its own named \<^verbatim>\<open>toString\<close>, which is no function: then the call throws.
\<close>

fun toStringJS :: "numfmt \<Rightarrow> json \<Rightarrow> js_error + string" where
  "toStringJS fmt JNull = Inl TypeError"
| "toStringJS fmt (JBool b) = Inr (if b then ''true'' else ''false'')"
| "toStringJS fmt (JNum n) = Inr (fmt n)"
| "toStringJS fmt (JStr s) = Inr s"
| "toStringJS fmt (JArr xs) =
     (let parts = map (\<lambda>x. if x = JNull then Inr [] else toStringJS fmt x) xs
      in if list_ex isl parts then Inl TypeError
         else Inr (joinWith '','' (map (\<lambda>p. case p of Inr s \<Rightarrow> s | Inl e \<Rightarrow> []) parts)))"
| "toStringJS fmt (JObj kvs) =
     (if map_of kvs ''toString'' \<noteq> None then Inl TypeError else Inr ''[object Object]'')"

subsection \<open>JSON.stringify\<close>

definition hexDigit :: "nat \<Rightarrow> char" where
  "hexDigit n = ''0123456789abcdef'' ! (n mod 16)"

text \<open>
  One character inside a JSON string literal: the quote (0x22) and the backslash (0x5C)
  are escaped, a control character is written \<^verbatim>\<open>\b \t \n \f \r\<close> or as
  \<^verbatim>\<open>\u00XX\<close>, every other character stands for itself.
\<close>

definition escapeChar :: "char \<Rightarrow> string" where
  "escapeChar c =
     (if c = CHR 0x22 then [CHR 0x5C, CHR 0x22]
      else if c = CHR 0x5C then [CHR 0x5C, CHR 0x5C]
      else if c = CHR 0x08 then [CHR 0x5C, CHR ''b'']
      else if c = CHR 0x09 then [CHR 0x5C, CHR ''t'']
      else if c = CHR 0x0A then [CHR 0x5C, CHR ''n'']
      else if c = CHR 0x0C then [CHR 0x5C, CHR ''f'']
      else if c = CHR 0x0D then [CHR 0x5C, CHR ''r'']
      else if (of_char c :: nat) < 32 then
        [CHR 0x5C, CHR ''u'', CHR ''0'', CHR ''0'',
         hexDigit ((of_char c :: nat) div 16), hexDigit (of_char c :: nat)]
      else [c])"

definition quoteJSON :: "string \<Rightarrow> string" where
  "quoteJSON s = [CHR 0x22] @ concat (map escapeChar s) @ [CHR 0x22]"

fun stringify :: "numfmt \<Rightarrow> json \<Rightarrow> string" where
  "stringify fmt JNull = ''null''"
| "stringify fmt (JBool b) = (if b then ''true'' else ''false'')"
| "stringify fmt (JNum n) = fmt n"
| "stringify fmt (JStr s) = quoteJSON s"
| "stringify fmt (JArr xs) = ''['' @ joinWith '','' (map (stringify fmt) xs) @ '']''"
| "stringify fmt (JObj kvs) =
     ''{'' @ joinWith '','' (map (\<lambda>kv. quoteJSON (fst kv) @ '':'' @ stringify fmt (snd kv)) kvs)
     @ ''}''"

section \<open>The payload interpreter\<close>

text \<open>\<^verbatim>\<open>(f.name || "").toLowerCase()\<close> (line 304).\<close>

definition fieldName :: "json \<Rightarrow> js_error + string" where
  "fieldName f =
     (if f = JNull then Inl TypeError
      else if truthy (getProp f ''name'') then
        (case getProp f ''name'' of
           Some (JStr s) \<Rightarrow> Inr (toLowerCase s)
         | _ \<Rightarrow> Inl TypeError)
      else Inr (toLowerCase []))"

text \<open>\<^verbatim>\<open>(f.value || "").toString()\<close> (line 305).\<close>

definition fieldValue :: "numfmt \<Rightarrow> json \<Rightarrow> js_error + string" where
  "fieldValue fmt f =
     (if f = JNull then Inl TypeError
      else if truthy (getProp f ''value'') then
        (case getProp f ''value'' of
           Some v \<Rightarrow> toStringJS fmt v
         | None \<Rightarrow> Inr [])
      else Inr [])"

text \<open>\<^verbatim>\<open>parseFloat(m[1])\<close>; an undefined argument reads as NaN.\<close>

definition parseFloatArg :: "string option \<Rightarrow> jsnum" where
  "parseFloatArg g = (case g of None \<Rightarrow> NaN | Some s \<Rightarrow> parseFloat s)"

text \<open>
  The loop over \<^verbatim>\<open>e.fields\<close> (lines 303-315); the state is the pair of the
  variables \<^verbatim>\<open>eggName\<close> and \<^verbatim>\<open>weight\<close>.
\<close>

fun fieldsLoop :: "numfmt \<Rightarrow> json list \<Rightarrow> json \<times> jsnum \<Rightarrow> js_error + json \<times> jsnum" where
  "fieldsLoop fmt [] st = Inr st"
| "fieldsLoop fmt (f # fs) (eggName, weight) =
     (case fieldName f of
        Inl err \<Rightarrow> Inl err
      | Inr name \<Rightarrow>
          (case fieldValue fmt f of
             Inl err \<Rightarrow> Inl err
           | Inr val \<Rightarrow>
               fieldsLoop fmt fs
                 (if strIncludes name ''from'' then JStr (trim (stripEgg val)) else eggName,
                  if strIncludes name ''weight'' then
                    (case rxExec numberRx val of
                       None \<Rightarrow> weight
                     | Some g \<Rightarrow> parseFloatArg g)
                  else weight)))"

text \<open>
  Lines 299-319: the first embed. \<^verbatim>\<open>body.embeds?.length\<close> is undefined when
  \<^verbatim>\<open>body.embeds\<close> is undefined or null; reading a property of an element
  \<^verbatim>\<open>e\<close> that is undefined or null throws.
\<close>

definition embedsPart :: "numfmt \<Rightarrow> json \<Rightarrow> js_error + json \<times> jsnum" where
  "embedsPart fmt body =
     (case getProp body ''embeds'' of
        None \<Rightarrow> Inr (JNull, Fin 0)
      | Some embeds \<Rightarrow>
          if embeds \<noteq> JNull \<and> truthy (getProp embeds ''length'') then
            (case index0 embeds of
               None \<Rightarrow> Inl TypeError
             | Some e \<Rightarrow>
                 if e = JNull then Inl TypeError
                 else
                   (case (case getProp e ''fields'' of
                            Some (JArr fs) \<Rightarrow> fieldsLoop fmt fs (JNull, Fin 0)
                          | _ \<Rightarrow> Inr (JNull, Fin 0)) of
                      Inl err \<Rightarrow> Inl err
                    | Inr (eggName, weight) \<Rightarrow>
                        (case getProp e ''title'' of
                           Some t \<Rightarrow>
                             if \<not> truthy (Some eggName) \<and> truthy (Some t) then Inr (t, weight)
                             else Inr (eggName, weight)
                         | None \<Rightarrow> Inr (eggName, weight))))
          else Inr (JNull, Fin 0))"

text \<open>
  Lines 321-324: the content text. \<^verbatim>\<open>body.content.match\<close> is a function only when
  the content is a string.
\<close>

definition contentPart :: "json \<Rightarrow> json \<Rightarrow> js_error + json" where
  "contentPart body eggName =
     (case getProp body ''content'' of
        None \<Rightarrow> Inr eggName
      | Some content \<Rightarrow>
          if \<not> truthy (Some eggName) \<and> truthy (Some content) then
            (case content of
               JStr c \<Rightarrow>
                 (case rxExec hatchedFromRx c of
                    None \<Rightarrow> Inr eggName
                  | Some None \<Rightarrow> Inl TypeError
                  | Some (Some g) \<Rightarrow> Inr (JStr (trim (stripEgg g))))
             | _ \<Rightarrow> Inl TypeError)
          else Inr eggName)"

text \<open>
  \<^verbatim>\<open>parseWebhookPayload(body)\<close> (lines 295-331). Reading \<^verbatim>\<open>body.embeds\<close>
  throws when the body is null. The result is the pair \<^verbatim>\<open>{ eggName, weight }\<close>.
\<close>

definition parseWebhookPayload :: "numfmt \<Rightarrow> json \<Rightarrow> js_error + json \<times> jsnum" where
  "parseWebhookPayload fmt body =
     (if body = JNull then Inl TypeError
      else
        (case embedsPart fmt body of
           Inl err \<Rightarrow> Inl err
         | Inr (eggName1, weight1) \<Rightarrow>
             (case contentPart body eggName1 of
                Inl err \<Rightarrow> Inl err
              | Inr eggName2 \<Rightarrow>
                  (let weightMatch = rxExec kgRx (stringify fmt body);
                       weight2 = (case weightMatch of
                                    None \<Rightarrow> weight1
                                  | Some g \<Rightarrow>
                                      if \<not> truthyNum weight1 then parseFloatArg g else weight1);
                       eggName3 = (if \<not> truthy (Some eggName2) then JStr ''Unknown''
                                   else eggName2)
                   in Inr (eggName3, weight2)))))"

section \<open>The specification's reading of the interpreter\<close>

text \<open>
  The specification describes the interpreter as two chains of strategies, one for the
  name and one for the weight. The definitions of this section follow its words; the
  theorems relate them to \<open>parseWebhookPayload\<close>.
\<close>

text \<open>The first rich-content block: the first element of a non-empty \<^verbatim>\<open>embeds\<close>.\<close>

definition firstBlock :: "json \<Rightarrow> json option" where
  "firstBlock body =
     (case getProp body ''embeds'' of
        None \<Rightarrow> None
      | Some embeds \<Rightarrow>
          if embeds \<noteq> JNull \<and> truthy (getProp embeds ''length'') then index0 embeds
          else None)"

text \<open>The block's field list; empty when the block has no list of fields.\<close>

definition blockFields :: "json \<Rightarrow> json list" where
  "blockFields e = (case getProp e ''fields'' of Some (JArr fs) \<Rightarrow> fs | _ \<Rightarrow> [])"

definition firstFields :: "json \<Rightarrow> json list" where
  "firstFields body = (case firstBlock body of None \<Rightarrow> [] | Some e \<Rightarrow> blockFields e)"

text \<open>A field's label and the text of its value (empty when absent).\<close>

definition labelOf :: "json \<Rightarrow> string" where
  "labelOf f = (case getProp f ''name'' of Some (JStr s) \<Rightarrow> s | _ \<Rightarrow> [])"

definition valueText :: "numfmt \<Rightarrow> json \<Rightarrow> string" where
  "valueText fmt f = (case fieldValue fmt f of Inr v \<Rightarrow> v | Inl err \<Rightarrow> [])"

definition isFromField :: "json \<Rightarrow> bool" where
  "isFromField f = strIncludes (toLowerCase (labelOf f)) ''from''"

definition isWeightField :: "json \<Rightarrow> bool" where
  "isWeightField f = strIncludes (toLowerCase (labelOf f)) ''weight''"

text \<open>The normalised name a value gives: \<^verbatim>\<open>egg\<close> stripped, then trimmed.\<close>

definition normalise :: "string \<Rightarrow> string" where
  "normalise v = trim (stripEgg v)"

text \<open>
  Name, strategy 1: the normalised value of the last field whose label contains
  \<^verbatim>\<open>from\<close>.
\<close>

definition nameFromFields :: "numfmt \<Rightarrow> json \<Rightarrow> string option" where
  "nameFromFields fmt body =
     (case filter isFromField (firstFields body) of
        [] \<Rightarrow> None
      | f # fs \<Rightarrow> Some (normalise (valueText fmt (last (f # fs)))))"

text \<open>Name, strategy 2: the title of the first block, when it has one (a truthy one).\<close>

definition nameFromTitle :: "json \<Rightarrow> json option" where
  "nameFromTitle body =
     (case firstBlock body of
        None \<Rightarrow> None
      | Some e \<Rightarrow> if truthy (getProp e ''title'') then getProp e ''title'' else None)"

text \<open>Name, strategy 3: the capture of the content pattern, normalised.\<close>

definition nameFromContent :: "json \<Rightarrow> string option" where
  "nameFromContent body =
     (case getProp body ''content'' of
        Some (JStr c) \<Rightarrow>
          (case rxExec hatchedFromRx c of
             Some (Some g) \<Rightarrow> Some (normalise g)
           | _ \<Rightarrow> None)
      | _ \<Rightarrow> None)"

text \<open>
  Weight, strategy 1: the first numeric token of the value of a field whose label
  contains \<^verbatim>\<open>weight\<close>; of the fields that have such a token, the last one counts.
\<close>

definition fieldWeight :: "numfmt \<Rightarrow> json \<Rightarrow> jsnum option" where
  "fieldWeight fmt f =
     (if isWeightField f then map_option parseFloatArg (rxExec numberRx (valueText fmt f))
      else None)"

definition weightFromFields :: "numfmt \<Rightarrow> json \<Rightarrow> jsnum option" where
  "weightFromFields fmt body =
     (case List.map_filter (fieldWeight fmt) (firstFields body) of
        [] \<Rightarrow> None
      | w # ws \<Rightarrow> Some (last (w # ws)))"

text \<open>
  Weight, strategy 2: the first numeric token followed by optional white space and
  \<^verbatim>\<open>kg\<close> in the serialisation of the whole payload.
\<close>

definition weightFromText :: "numfmt \<Rightarrow> json \<Rightarrow> jsnum option" where
  "weightFromText fmt body = map_option parseFloatArg (rxExec kgRx (stringify fmt body))"

text \<open>The known shapes of a payload; every part may be absent or null.\<close>

fun strOrAbsent :: "json option \<Rightarrow> bool" where
  "strOrAbsent None = True"
| "strOrAbsent (Some JNull) = True"
| "strOrAbsent (Some (JStr s)) = True"
| "strOrAbsent _ = False"

fun isObject :: "json \<Rightarrow> bool" where
  "isObject (JObj kvs) = True"
| "isObject _ = False"

definition wfField :: "json \<Rightarrow> bool" where
  "wfField f =
     (isObject f \<and> strOrAbsent (getProp f ''name'') \<and> strOrAbsent (getProp f ''value''))"

definition wfEmbed :: "json \<Rightarrow> bool" where
  "wfEmbed e =
     (isObject e \<and> strOrAbsent (getProp e ''title'') \<and>
      (case getProp e ''fields'' of
         None \<Rightarrow> True
       | Some JNull \<Rightarrow> True
       | Some (JArr fs) \<Rightarrow> list_all wfField fs
       | _ \<Rightarrow> False))"

text \<open>
  Only the first element of \<^verbatim>\<open>embeds\<close> is constrained (the interpreter reads no
  other), and a payload may carry any further keys.
\<close>

definition wellFormed :: "json \<Rightarrow> bool" where
  "wellFormed body =
     (isObject body \<and> strOrAbsent (getProp body ''content'') \<and>
      (case getProp body ''embeds'' of
         None \<Rightarrow> True
       | Some JNull \<Rightarrow> True
       | Some (JArr []) \<Rightarrow> True
       | Some (JArr (e # es)) \<Rightarrow> wfEmbed e
       | _ \<Rightarrow> False))"

text \<open>
  The chains. A name strategy that yields the empty text counts as yielding nothing; the
  weight of the fields counts as found only when it is not zero.
\<close>

definition laterName :: "json \<Rightarrow> json" where
  "laterName body =
     (case nameFromTitle body of
        Some t \<Rightarrow> t
      | None \<Rightarrow>
          (case nameFromContent body of
             None \<Rightarrow> JStr ''Unknown''
           | Some c \<Rightarrow> if c = [] then JStr ''Unknown'' else JStr c))"

definition specName :: "numfmt \<Rightarrow> json \<Rightarrow> json" where
  "specName fmt body =
     (case nameFromFields fmt body of
        None \<Rightarrow> laterName body
      | Some v \<Rightarrow> if v = [] then laterName body else JStr v)"

definition specWeight :: "numfmt \<Rightarrow> json \<Rightarrow> jsnum" where
  "specWeight fmt body =
     (let w1 = (case weightFromFields fmt body of None \<Rightarrow> Fin 0 | Some x \<Rightarrow> x)
      in if truthyNum w1 then w1
         else (case weightFromText fmt body of None \<Rightarrow> w1 | Some x \<Rightarrow> x))"

section \<open>Example payloads\<close>

text \<open>
  The example payloads hold no number, so the formatter passed with them is never
  consulted; this one stands for any.
\<close>

definition exampleFormat :: numfmt where
  "exampleFormat n = ''0''"




section \<open>The store, the settings resolver and the webhook handler\<close>

text \<open>
  The two tables of db.js as lists of rows in storage order. A column that may be NULL
  is an option. The columns the store fills by itself (\<^verbatim>\<open>id\<close>, \<^verbatim>\<open>hatched_at\<close>)
  are not modelled, and a value is stored as it is handed to the \<^verbatim>\<open>INSERT\<close> (the
  rounding of the \<^verbatim>\<open>REAL\<close> columns to single precision is not modelled).
\<close>

record settings_row =
  row_guild_id :: string
  row_webhook_channel_id :: "string option"
  row_timezone_offset :: "string option"
  row_loss_multiplier :: "jsnum option"

record log_row =
  log_guild_id :: string
  egg_name :: json
  weight :: jsnum
  rarity :: "tier option"

record db =
  settings :: "settings_row list"
  hatch_logs :: "log_row list"

text \<open>The process-wide defaults read from the environment (lines 19-21).\<close>

record env =
  WEBHOOK_CHANNEL_ID :: "string option"
  DEFAULT_TZ :: string
  DEFAULT_LOSS :: jsnum

text \<open>
  What the libraries outside the repository do: how the engine prints a number, and how
  the database driver turns a value that is no string into the text of a query
  parameter.
\<close>

record lib =
  numberToString :: numfmt
  prepareValue :: "json \<Rightarrow> string"

text \<open>The object \<^verbatim>\<open>getSettings\<close> returns.\<close>

record guild_settings =
  webhook_channel_id :: "string option"
  timezone_offset :: string
  loss_multiplier :: jsnum

text \<open>
  \<^verbatim>\<open>getSettings(guildId)\<close> (lines 64-84). \<^verbatim>\<open>a || b\<close> takes \<open>b\<close> when \<open>a\<close> is
  null, the empty string, zero or NaN. \<^verbatim>\<open>parseFloat\<close> of a number gives the number
  back.
\<close>

definition getSettings :: "env \<Rightarrow> db \<Rightarrow> string \<Rightarrow> guild_settings" where
  "getSettings env d guildId =
     (case filter (\<lambda>r. row_guild_id r = guildId) (settings d) of
        [] \<Rightarrow>
          \<lparr>webhook_channel_id = WEBHOOK_CHANNEL_ID env,
           timezone_offset = DEFAULT_TZ env,
           loss_multiplier = DEFAULT_LOSS env\<rparr>
      | r # rs \<Rightarrow>
          \<lparr>webhook_channel_id =
             (case row_webhook_channel_id r of
                None \<Rightarrow> WEBHOOK_CHANNEL_ID env
              | Some c \<Rightarrow> if c = [] then WEBHOOK_CHANNEL_ID env else Some c),
           timezone_offset =
             (case row_timezone_offset r of
                None \<Rightarrow> DEFAULT_TZ env
              | Some t \<Rightarrow> if t = [] then DEFAULT_TZ env else t),
           loss_multiplier =
             (case row_loss_multiplier r of
                None \<Rightarrow> DEFAULT_LOSS env
              | Some l \<Rightarrow> if truthyNum l then l else DEFAULT_LOSS env)\<rparr>)"

text \<open>\<^verbatim>\<open>saveSettings\<close> (lines 86-96): insert, or overwrite the guild's row.\<close>

definition saveSettings :: "db \<Rightarrow> string \<Rightarrow> string \<Rightarrow> string \<Rightarrow> jsnum \<Rightarrow> db" where
  "saveSettings d guildId channelId timezone lossMultiplier =
     (let new = \<lparr>row_guild_id = guildId,
                 row_webhook_channel_id = Some channelId,
                 row_timezone_offset = Some timezone,
                 row_loss_multiplier = Some lossMultiplier\<rparr>
      in if list_ex (\<lambda>r. row_guild_id r = guildId) (settings d) then
           d\<lparr>settings := map (\<lambda>r. if row_guild_id r = guildId then new else r) (settings d)\<rparr>
         else d\<lparr>settings := settings d @ [new]\<rparr>)"

text \<open>\<^verbatim>\<open>insertLog\<close> (lines 98-103).\<close>

definition insertLog :: "db \<Rightarrow> string \<Rightarrow> json \<Rightarrow> jsnum \<Rightarrow> tier option \<Rightarrow> db" where
  "insertLog d guildId eggName w r =
     d\<lparr>hatch_logs := hatch_logs d
          @ [\<lparr>log_guild_id = guildId, egg_name = eggName, weight = w, rarity = r\<rparr>]\<rparr>"

text \<open>
  Whether each of the handler's three round trips to the store succeeds; a failed one
  throws.
\<close>

record store_io =
  selectOk :: bool
  fallbackOk :: bool
  insertOk :: bool

text \<open>The text of a query parameter; \<open>None\<close> is NULL, which equals no column.\<close>

definition sqlParam :: "lib \<Rightarrow> json option \<Rightarrow> string option" where
  "sqlParam l v =
     (case v of
        None \<Rightarrow> None
      | Some JNull \<Rightarrow> None
      | Some (JStr s) \<Rightarrow> Some s
      | Some x \<Rightarrow> Some (prepareValue l x))"

text \<open>
  The handler of \<^verbatim>\<open>POST /webhook\<close> (lines 333-367): the new state of the store and
  the status of the response. Whatever is thrown inside is caught and answered 500.
\<close>

definition webhook :: "env \<Rightarrow> lib \<Rightarrow> store_io \<Rightarrow> db \<Rightarrow> json \<Rightarrow> db \<times> nat" where
  "webhook env l io d payload =
     (case parseWebhookPayload (numberToString l) payload of
        Inl err \<Rightarrow> (d, 500)
      | Inr (eggName, w) \<Rightarrow>
          (let r = classifyRarity w;
               channelId = (if truthy (getProp payload ''channel_id'')
                            then getProp payload ''channel_id''
                            else (case WEBHOOK_CHANNEL_ID env of
                                    None \<Rightarrow> Some JNull
                                  | Some c \<Rightarrow> Some (JStr c)))
           in if \<not> selectOk io then (d, 500)
              else
                (let sres = filter (\<lambda>row. row_webhook_channel_id row \<noteq> None
                                          \<and> row_webhook_channel_id row = sqlParam l channelId)
                                   (settings d);
                     guildId = (case sres of [] \<Rightarrow> [] | row # rows \<Rightarrow> row_guild_id row)
                 in if guildId = [] \<and> \<not> fallbackOk io then (d, 500)
                    else
                      (let guildId' = (if guildId = [] then
                                         (case settings d of
                                            [] \<Rightarrow> guildId
                                          | row # rows \<Rightarrow> row_guild_id row)
                                       else guildId)
                       in if \<not> insertOk io then (d, 500)
                          else if guildId' = [] then
                            (insertLog d ''unknown'' eggName w r, 200)
                          else (insertLog d guildId' eggName w r, 200)))))"

text \<open>
  The states the store can reach from two empty tables: by a delivery to the webhook,
  or by a settings upsert (the only write of \<^verbatim>\<open>/setup\<close>). The other commands only
  read.
\<close>

inductive reachable :: "env \<Rightarrow> lib \<Rightarrow> db \<Rightarrow> bool" for env :: env and l :: lib where
  reachable_init: "reachable env l \<lparr>settings = [], hatch_logs = []\<rparr>"
| reachable_webhook:
    "reachable env l d \<Longrightarrow> reachable env l (fst (webhook env l io d payload))"
| reachable_save:
    "reachable env l d \<Longrightarrow> reachable env l (saveSettings d guildId channelId timezone loss)"

definition exampleLib :: lib where
  "exampleLib = \<lparr>numberToString = exampleFormat, prepareValue = (\<lambda>v. [])\<rparr>"

definition exampleEnv :: env where
  "exampleEnv = \<lparr>WEBHOOK_CHANNEL_ID = None, DEFAULT_TZ = ''UTC+0'', DEFAULT_LOSS = Fin 1\<rparr>"

definition allOk :: store_io where
  "allOk = \<lparr>selectOk = True, fallbackOk = True, insertOk = True\<rparr>"

definition emptyDb :: db where
  "emptyDb = \<lparr>settings = [], hatch_logs = []\<rparr>"

text \<open>The row the store holds for a guild, if any.\<close>

definition storedRow :: "db \<Rightarrow> string \<Rightarrow> settings_row option" where
  "storedRow d guildId =
     (case filter (\<lambda>r. row_guild_id r = guildId) (settings d) of
        [] \<Rightarrow> None
      | r # rs \<Rightarrow> Some r)"

section \<open>Dates\<close>

text \<open>
  A time value is a number of milliseconds since 1970-01-01T00:00:00Z. The functions
  below are the ones of the ECMAScript specification of \<^verbatim>\<open>Date\<close>, with its names.
  The time value of a \<^verbatim>\<open>Date\<close> object is an \<open>int option\<close>: \<open>None\<close> is NaN, the
  invalid date; so is a number handed to a \<^verbatim>\<open>Date\<close> method.
\<close>

definition msPerDay :: int where "msPerDay = 86400000"
definition msPerHour :: int where "msPerHour = 3600000"
definition msPerMinute :: int where "msPerMinute = 60000"
definition msPerSecond :: int where "msPerSecond = 1000"

definition Day :: "int \<Rightarrow> int" where
  "Day t = t div msPerDay"

definition TimeWithinDay :: "int \<Rightarrow> int" where
  "TimeWithinDay t = t mod msPerDay"

definition DaysInYear :: "int \<Rightarrow> int" where
  "DaysInYear y =
     (if y mod 4 \<noteq> 0 then 365
      else if y mod 100 \<noteq> 0 then 366
      else if y mod 400 \<noteq> 0 then 365
      else 366)"

definition DayFromYear :: "int \<Rightarrow> int" where
  "DayFromYear y =
     365 * (y - 1970) + (y - 1969) div 4 - (y - 1901) div 100 + (y - 1601) div 400"

lemma div_succ:
  fixes a n :: int
  assumes "0 < n"
  shows "(a + 1) div n = a div n + (if (a + 1) mod n = 0 then 1 else 0)"
proof -
  define q where "q = a div n"
  define r where "r = a mod n"
  have a: "a = n * q + r" by (simp add: q_def r_def)
  have r: "0 \<le> r" "r < n" using assms by (simp_all add: r_def)
  show ?thesis
  proof (cases "r + 1 = n")
    case True
    then have e: "a + 1 = n * (q + 1) + 0" using a by (simp add: algebra_simps)
    have "(a + 1) div n = q + 1"
      by (rule int_div_pos_eq [OF e]) (use assms in simp_all)
    moreover have "(a + 1) mod n = 0"
      by (rule int_mod_pos_eq [OF e]) (use assms in simp_all)
    ultimately show ?thesis by (simp add: q_def)
  next
    case False
    then have r1: "0 \<le> r + 1" "r + 1 < n" using r by simp_all
    have e: "a + 1 = n * q + (r + 1)" using a by simp
    have "(a + 1) div n = q"
      by (rule int_div_pos_eq [OF e r1])
    moreover have "(a + 1) mod n = r + 1"
      by (rule int_mod_pos_eq [OF e r1])
    ultimately show ?thesis using r by (simp add: q_def)
  qed
qed

lemma mod_shift:
  fixes y k n :: int
  shows "(y - n * k) mod n = y mod n"
proof -
  have "(y - n * k) mod n = (y + n * (- k)) mod n" by simp
  also have "\<dots> = y mod n" by (rule mod_mult_self2)
  finally show ?thesis .
qed

lemma DayFromYear_step: "DayFromYear (y + 1) = DayFromYear y + DaysInYear y"
proof -
  have d4: "(y - 1968) div 4 = (y - 1969) div 4 + (if y mod 4 = 0 then 1 else 0)"
    using div_succ [of 4 "y - 1969"] mod_shift [of y 4 492] by simp
  have d100: "(y - 1900) div 100 = (y - 1901) div 100 + (if y mod 100 = 0 then 1 else 0)"
    using div_succ [of 100 "y - 1901"] mod_shift [of y 100 19] by simp
  have d400: "(y - 1600) div 400 = (y - 1601) div 400 + (if y mod 400 = 0 then 1 else 0)"
    using div_succ [of 400 "y - 1601"] mod_shift [of y 400 4] by simp
  have r1: "y mod 4 = 0" if "y mod 100 = 0"
    using that mod_mod_cancel [of 4 100 y] by simp
  have r2: "y mod 100 = 0" if "y mod 400 = 0"
    using that mod_mod_cancel [of 100 400 y] by simp
  have "DayFromYear (y + 1)
          = 365 * (y - 1969) + (y - 1968) div 4 - (y - 1900) div 100 + (y - 1600) div 400"
    by (simp add: DayFromYear_def)
  also have "\<dots> = DayFromYear y + DaysInYear y"
    using r1 r2 by (auto simp: d4 d100 d400 DayFromYear_def DaysInYear_def)
  finally show ?thesis .
qed

lemma DayFromYear_less: "DayFromYear (y - 1) < DayFromYear y"
  using DayFromYear_step [of "y - 1"] by (simp add: DaysInYear_def)

text \<open>
  \<^verbatim>\<open>YearFromTime(t)\<close> is the largest year that starts at or before \<open>t\<close>. It is found
  by stepping down from a year that starts after the day of \<open>t\<close>.
\<close>

function yearDown :: "int \<Rightarrow> int \<Rightarrow> int" where
  "yearDown d y = (if DayFromYear y \<le> d then y else yearDown d (y - 1))"
  by pat_completeness auto
termination
proof (relation "measure (\<lambda>(d, y). nat (DayFromYear y - d))")
  show "wf (measure (\<lambda>(d, y). nat (DayFromYear y - d)))"
    by simp
next
  fix d y :: int
  assume "\<not> DayFromYear y \<le> d"
  then show "((d, y - 1), (d, y)) \<in> measure (\<lambda>(d, y). nat (DayFromYear y - d))"
    using DayFromYear_less [of y] by simp
qed

declare yearDown.simps [simp del]

definition YearFromTime :: "int \<Rightarrow> int" where
  "YearFromTime t =
     (let d = Day t in
      yearDown d (if 0 \<le> d then 1970 + d div 365 else 1970 + d div 366))"

definition InLeapYear :: "int \<Rightarrow> int" where
  "InLeapYear t = (if DaysInYear (YearFromTime t) = 366 then 1 else 0)"

definition DayWithinYear :: "int \<Rightarrow> int" where
  "DayWithinYear t = Day t - DayFromYear (YearFromTime t)"

definition MonthFromTime :: "int \<Rightarrow> int" where
  "MonthFromTime t =
     (let d = DayWithinYear t; leap = InLeapYear t in
      if d < 31 then 0
      else if d < 59 + leap then 1
      else if d < 90 + leap then 2
      else if d < 120 + leap then 3
      else if d < 151 + leap then 4
      else if d < 181 + leap then 5
      else if d < 212 + leap then 6
      else if d < 243 + leap then 7
      else if d < 273 + leap then 8
      else if d < 304 + leap then 9
      else if d < 334 + leap then 10
      else 11)"

definition DateFromTime :: "int \<Rightarrow> int" where
  "DateFromTime t =
     (let d = DayWithinYear t; leap = InLeapYear t; m = MonthFromTime t in
      if m = 0 then d + 1
      else if m = 1 then d - 30
      else if m = 2 then d - 58 - leap
      else if m = 3 then d - 89 - leap
      else if m = 4 then d - 119 - leap
      else if m = 5 then d - 150 - leap
      else if m = 6 then d - 180 - leap
      else if m = 7 then d - 211 - leap
      else if m = 8 then d - 242 - leap
      else if m = 9 then d - 272 - leap
      else if m = 10 then d - 303 - leap
      else d - 333 - leap)"

definition HourFromTime :: "int \<Rightarrow> int" where
  "HourFromTime t = (t div msPerHour) mod 24"

definition MinFromTime :: "int \<Rightarrow> int" where
  "MinFromTime t = (t div msPerMinute) mod 60"

definition SecFromTime :: "int \<Rightarrow> int" where
  "SecFromTime t = (t div msPerSecond) mod 60"

definition msFromTime :: "int \<Rightarrow> int" where
  "msFromTime t = t mod msPerSecond"

definition MakeTime :: "int \<Rightarrow> int \<Rightarrow> int \<Rightarrow> int \<Rightarrow> int" where
  "MakeTime h m s milli = h * msPerHour + m * msPerMinute + s * msPerSecond + milli"

text \<open>The number of days of a year that lie before its month \<open>m\<close> (0 to 11).\<close>

definition daysBeforeMonth :: "int \<Rightarrow> int \<Rightarrow> int" where
  "daysBeforeMonth leap m =
     (if m = 0 then 0
      else if m = 1 then 31
      else if m = 2 then 59 + leap
      else if m = 3 then 90 + leap
      else if m = 4 then 120 + leap
      else if m = 5 then 151 + leap
      else if m = 6 then 181 + leap
      else if m = 7 then 212 + leap
      else if m = 8 then 243 + leap
      else if m = 9 then 273 + leap
      else if m = 10 then 304 + leap
      else 334 + leap)"

text \<open>
  \<^verbatim>\<open>MakeDay(year, month, date)\<close>: the day number of the first of the month (months
  beyond 0 to 11 carry into the year), plus \<open>date - 1\<close>.
\<close>

definition MakeDay :: "int \<Rightarrow> int \<Rightarrow> int \<Rightarrow> int" where
  "MakeDay year month date =
     (let ym = year + month div 12; mn = month mod 12 in
      DayFromYear ym + daysBeforeMonth (if DaysInYear ym = 366 then 1 else 0) mn + date - 1)"

definition MakeDate :: "int \<Rightarrow> int \<Rightarrow> int" where
  "MakeDate day time = day * msPerDay + time"

definition maxTime :: int where
  "maxTime = 8640000000000000"

definition TimeClip :: "int \<Rightarrow> int option" where
  "TimeClip t = (if maxTime < \<bar>t\<bar> then None else Some t)"

text \<open>\<^verbatim>\<open>Date.UTC\<close> reads a year from 0 to 99 as a year of the twentieth century.\<close>

definition MakeFullYear :: "int \<Rightarrow> int" where
  "MakeFullYear y = (if 0 \<le> y \<and> y \<le> 99 then 1900 + y else y)"

text \<open>\<^verbatim>\<open>Date.UTC(year, month, date)\<close>, and \<^verbatim>\<open>new Date(number)\<close>.\<close>

definition DateUTC :: "int option \<Rightarrow> int option \<Rightarrow> int option \<Rightarrow> int option" where
  "DateUTC year month date =
     (case year of
        None \<Rightarrow> None
      | Some y \<Rightarrow>
          (case month of
             None \<Rightarrow> None
           | Some m \<Rightarrow>
               (case date of
                  None \<Rightarrow> None
                | Some dt \<Rightarrow> TimeClip (MakeDate (MakeDay (MakeFullYear y) m dt) 0))))"

definition newDate :: "int option \<Rightarrow> int option" where
  "newDate v = (case v of None \<Rightarrow> None | Some t \<Rightarrow> TimeClip t)"

text \<open>The getters; each is NaN on the invalid date.\<close>

definition getUTCFullYear :: "int option \<Rightarrow> int option" where
  "getUTCFullYear t = map_option YearFromTime t"

definition getUTCMonth :: "int option \<Rightarrow> int option" where
  "getUTCMonth t = map_option MonthFromTime t"

definition getUTCDate :: "int option \<Rightarrow> int option" where
  "getUTCDate t = map_option DateFromTime t"

definition getUTCHours :: "int option \<Rightarrow> int option" where
  "getUTCHours t = map_option HourFromTime t"

text \<open>
  Local time. The time zone of the host is a fixed offset \<open>tza\<close> in milliseconds; a zone
  whose offset changes over the year (daylight saving) is not modelled.
\<close>

definition getDate :: "int \<Rightarrow> int option \<Rightarrow> int option" where
  "getDate tza t = map_option (\<lambda>u. DateFromTime (u + tza)) t"

definition getHours :: "int \<Rightarrow> int option \<Rightarrow> int option" where
  "getHours tza t = map_option (\<lambda>u. HourFromTime (u + tza)) t"

text \<open>Subtraction of numbers: NaN when either is.\<close>

definition jsSub :: "int option \<Rightarrow> int option \<Rightarrow> int option" where
  "jsSub a b = (case a of None \<Rightarrow> None | Some x \<Rightarrow> (case b of None \<Rightarrow> None | Some y \<Rightarrow> Some (x - y)))"

text \<open>
  The setters with one argument: the other components are the date's own. An hour or
  a date out of range carries into the day, the month and the year.
\<close>

definition setUTCHours :: "int option \<Rightarrow> int option \<Rightarrow> int option" where
  "setUTCHours t hour =
     (case t of
        None \<Rightarrow> None
      | Some u \<Rightarrow>
          (case hour of
             None \<Rightarrow> None
           | Some h \<Rightarrow>
               TimeClip (MakeDate (Day u)
                                  (MakeTime h (MinFromTime u) (SecFromTime u) (msFromTime u)))))"

definition setHours :: "int \<Rightarrow> int option \<Rightarrow> int option \<Rightarrow> int option" where
  "setHours tza t hour =
     (case t of
        None \<Rightarrow> None
      | Some u \<Rightarrow>
          (case hour of
             None \<Rightarrow> None
           | Some h \<Rightarrow>
               (let lt = u + tza in
                TimeClip (MakeDate (Day lt)
                                   (MakeTime h (MinFromTime lt) (SecFromTime lt) (msFromTime lt))
                          - tza))))"

definition setDate :: "int \<Rightarrow> int option \<Rightarrow> int option \<Rightarrow> int option" where
  "setDate tza t date =
     (case t of
        None \<Rightarrow> None
      | Some u \<Rightarrow>
          (case date of
             None \<Rightarrow> None
           | Some dt \<Rightarrow>
               (let lt = u + tza in
                TimeClip (MakeDate (MakeDay (YearFromTime lt) (MonthFromTime lt) dt)
                                   (TimeWithinDay lt)
                          - tza))))"

text \<open>\<open>pad n k\<close>: the last \<open>n\<close> decimal digits of \<open>k\<close>.\<close>

fun pad :: "nat \<Rightarrow> int \<Rightarrow> string" where
  "pad 0 k = []"
| "pad (Suc n) k = pad n (k div 10) @ [''0123456789'' ! nat (k mod 10)]"

definition isoFormat :: "int \<Rightarrow> string" where
  "isoFormat t =
     (let y = YearFromTime t in
      (if 0 \<le> y \<and> y \<le> 9999 then pad 4 y
       else if y < 0 then ''-'' @ pad 6 (- y)
       else ''+'' @ pad 6 y)
      @ ''-'' @ pad 2 (MonthFromTime t + 1) @ ''-'' @ pad 2 (DateFromTime t)
      @ ''T'' @ pad 2 (HourFromTime t) @ '':'' @ pad 2 (MinFromTime t)
      @ '':'' @ pad 2 (SecFromTime t) @ ''.'' @ pad 3 (msFromTime t) @ ''Z'')"

text \<open>\<^verbatim>\<open>toISOString()\<close> throws a RangeError on the invalid date.\<close>

definition toISOString :: "int option \<Rightarrow> js_error + string" where
  "toISOString t = (case t of None \<Rightarrow> Inl RangeError | Some u \<Rightarrow> Inr (isoFormat u))"

section \<open>The period resolver\<close>

text \<open>
  Lines 216-218 (and 250-251): the offset in hours read from the timezone setting; 0
  when the setting does not contain \<^verbatim>\<open>UTC\<close> followed by a sign and one or two digits.
\<close>

definition offsetHours :: "string \<Rightarrow> int option" where
  "offsetHours tz =
     (case rxExec utcRx tz of
        None \<Rightarrow> Some 0
      | Some None \<Rightarrow> None
      | Some (Some g) \<Rightarrow> parseInt g (Some 10))"

text \<open>Lines 220-222 (and 253-254): the cutoff of \<^verbatim>\<open>today\<close>.\<close>

definition localMidnight :: "int option \<Rightarrow> int option \<Rightarrow> int option" where
  "localMidnight offset now =
     (let lm = newDate (DateUTC (getUTCFullYear now) (getUTCMonth now) (getUTCDate now))
      in setUTCHours lm (jsSub (getUTCHours lm) offset))"

text \<open>
  \<^verbatim>\<open>/dailycount\<close>, lines 214-223: the text \<^verbatim>\<open>sinceTs\<close> handed to the queries.
  \<open>storeOk\<close> tells whether the query of \<^verbatim>\<open>getSettings\<close> succeeds.
\<close>

definition dailySince ::
    "env \<Rightarrow> bool \<Rightarrow> db \<Rightarrow> string \<Rightarrow> int \<Rightarrow> js_error + string" where
  "dailySince env storeOk d guildId now =
     (if storeOk then
        toISOString (localMidnight (offsetHours (timezone_offset (getSettings env d guildId)))
                                   (Some now))
      else Inl StoreError)"

text \<open>
  \<^verbatim>\<open>/egg\<close>, lines 244-264. \<^verbatim>\<open>now\<close> and \<^verbatim>\<open>since\<close> are two readings of the clock
  in consecutive statements, taken here as the same instant. The result is the date
  \<^verbatim>\<open>since\<close>.
\<close>

definition eggSince ::
    "env \<Rightarrow> int \<Rightarrow> bool \<Rightarrow> db \<Rightarrow> string \<Rightarrow> string \<Rightarrow> int \<Rightarrow> js_error + int option" where
  "eggSince env tza storeOk d guildId period now =
     (if period = ''today'' then
        (if storeOk then
           Inr (localMidnight (offsetHours (timezone_offset (getSettings env d guildId)))
                              (Some now))
         else Inl StoreError)
      else if endsWith period ''d'' then
        Inr (setDate tza (Some now) (jsSub (getDate tza (Some now)) (parseInt period None)))
      else if period = ''24h'' then
        Inr (setHours tza (Some now) (jsSub (getHours tza (Some now)) (Some 24)))
      else Inr (setHours tza (Some now) (jsSub (getHours tza (Some now)) (Some 24))))"

text \<open>Line 264: \<^verbatim>\<open>sinceTs = since.toISOString()\<close>.\<close>

definition eggSinceTs ::
    "env \<Rightarrow> int \<Rightarrow> bool \<Rightarrow> db \<Rightarrow> string \<Rightarrow> string \<Rightarrow> int \<Rightarrow> js_error + string" where
  "eggSinceTs env tza storeOk d guildId period now =
     (case eggSince env tza storeOk d guildId period now of
        Inl err \<Rightarrow> Inl err
      | Inr since \<Rightarrow> toISOString since)"


text \<open>The start of the UTC day that holds \<open>t\<close>: midnight of its calendar date.\<close>

definition utcMidnight :: "int \<Rightarrow> int" where
  "utcMidnight t = MakeDate (Day t) 0"

text \<open>A reading of the clock: a time value at or after the epoch.\<close>

definition clockReading :: "int \<Rightarrow> bool" where
  "clockReading now = (0 \<le> now \<and> now \<le> maxTime)"

section \<open>Properties of the classifier\<close>

lemma classifyRarity_Fin:
  "classifyRarity (Fin w) =
     (if 4 \<le> w \<and> w < 5 then Some semi_huge
      else if 5 \<le> w \<and> w < 7 then Some huge
      else if 7 \<le> w \<and> w < 8 then Some semi_titan
      else if 8 \<le> w \<and> w < 9 then Some titan
      else if 9 \<le> w \<and> w \<le> 15 then Some godly
      else None)"
  by (auto simp: classifyRarity_def jsGe_def jsLe_def)

lemma classifyRarity_in_band: "(classifyRarity (Fin w) = Some t) = (w \<in> band t)"
  by (cases t) (auto simp: classifyRarity_Fin)

lemma classifyRarity_none: "(classifyRarity (Fin w) = None) = (\<forall>t. w \<notin> band t)"
proof -
  have "(classifyRarity (Fin w) = None) = (\<forall>t. classifyRarity (Fin w) \<noteq> Some t)"
    by auto
  then show ?thesis
    by (simp add: classifyRarity_in_band)
qed

lemma classifyRarity_not_finite:
  "classifyRarity NaN = None" "classifyRarity PosInf = None" "classifyRarity NegInf = None"
  by (simp_all add: classifyRarity_def jsGe_def jsLe_def)

text \<open>
  C2. For every weight, \<open>classifyRarity\<close> answers with the tier whose band holds the
  weight, and with none exactly when no band does (the bands are disjoint, so the tier is
  unique); a weight that is not finite is in no band. At the boundaries: 3.999 none,
  4.0 semi_huge, 8.999 titan, 9.0 godly, 15.0 godly, 15.001 none.
\<close>

theorem classifyRarity_bands:
  "(classifyRarity (Fin w) = Some t) = (w \<in> band t)
   \<and> (classifyRarity (Fin w) = None) = (\<forall>t'. w \<notin> band t')
   \<and> (w \<in> band t \<and> w \<in> band t' \<longrightarrow> t = t')
   \<and> classifyRarity NaN = None \<and> classifyRarity PosInf = None
   \<and> classifyRarity NegInf = None
   \<and> classifyRarity (Fin 3.999) = None
   \<and> classifyRarity (Fin 4.0) = Some semi_huge
   \<and> classifyRarity (Fin 8.999) = Some titan
   \<and> classifyRarity (Fin 9.0) = Some godly
   \<and> classifyRarity (Fin 15.0) = Some godly
   \<and> classifyRarity (Fin 15.001) = None"
proof -
  have uniq: "w \<in> band t \<and> w \<in> band t' \<longrightarrow> t = t'"
    by (cases t; cases t') auto
  have bounds: "classifyRarity (Fin 3.999) = None" "classifyRarity (Fin 4.0) = Some semi_huge"
    "classifyRarity (Fin 8.999) = Some titan" "classifyRarity (Fin 9.0) = Some godly"
    "classifyRarity (Fin 15.0) = Some godly" "classifyRarity (Fin 15.001) = None"
    by (simp_all add: classifyRarity_Fin)
  show ?thesis
    using uniq bounds classifyRarity_in_band [of w t] classifyRarity_none [of w]
      classifyRarity_not_finite
    by blast
qed

theorem classifyRarity_bands_witness:
  "(6.5::real) \<in> band huge \<and> classifyRarity (Fin 6.5) = Some huge"
  using classifyRarity_bands [of "6.5" huge huge] by simp

section \<open>Properties of the payload interpreter\<close>

declare rxExec.simps [simp del]

lemma fieldName_label: "fieldName f = Inr n \<Longrightarrow> n = toLowerCase (labelOf f)"
  by (cases "getProp f ''name''")
     (auto simp: fieldName_def labelOf_def toLowerCase_def
           split: if_splits option.splits json.splits)

lemma fieldValue_text: "fieldValue fmt f = Inr v \<Longrightarrow> v = valueText fmt f"
  by (simp add: valueText_def)

text \<open>
  The loop keeps, for each variable, what the last field that sets it assigns.
\<close>

lemma fieldsLoop_last:
  "fieldsLoop fmt fs (n0, w0) = Inr (n, w) \<Longrightarrow>
     n = (case filter isFromField fs of
            [] \<Rightarrow> n0
          | g # gs \<Rightarrow> JStr (normalise (valueText fmt (last (g # gs)))))
     \<and> w = (case List.map_filter (fieldWeight fmt) fs of
              [] \<Rightarrow> w0
            | x # xs \<Rightarrow> last (x # xs))"
proof (induction fs arbitrary: n0 w0)
  case Nil
  then show ?case by (simp add: List.map_filter_simps)
next
  case (Cons f fs)
  from Cons.prems obtain nm v where nm: "fieldName f = Inr nm" and v: "fieldValue fmt f = Inr v"
    by (auto split: sum.splits)
  have nm': "nm = toLowerCase (labelOf f)" using nm by (rule fieldName_label)
  have v': "v = valueText fmt f" using v by (rule fieldValue_text)
  let ?n1 = "if isFromField f then JStr (normalise (valueText fmt f)) else n0"
  let ?w1 = "case fieldWeight fmt f of None \<Rightarrow> w0 | Some x \<Rightarrow> x"
  have step: "fieldsLoop fmt fs (?n1, ?w1) = Inr (n, w)"
    using Cons.prems nm v nm' v'
    by (auto simp: isFromField_def isWeightField_def fieldWeight_def normalise_def
             split: option.splits)
  note IH = Cons.IH [OF step]
  show ?case
  proof (intro conjI)
    show "n = (case filter isFromField (f # fs) of
                 [] \<Rightarrow> n0
               | g # gs \<Rightarrow> JStr (normalise (valueText fmt (last (g # gs)))))"
      using IH by (auto split: list.splits)
    show "w = (case List.map_filter (fieldWeight fmt) (f # fs) of
                 [] \<Rightarrow> w0
               | x # xs \<Rightarrow> last (x # xs))"
      using IH by (cases "fieldWeight fmt f") (auto simp: List.map_filter_simps split: list.splits)
  qed
qed

lemma embedsPart_char:
  assumes "embedsPart fmt body = Inr (n1, w1)"
  shows "w1 = (case weightFromFields fmt body of None \<Rightarrow> Fin 0 | Some x \<Rightarrow> x)"
    and "n1 = (case nameFromFields fmt body of
                 None \<Rightarrow> (case nameFromTitle body of None \<Rightarrow> JNull | Some t \<Rightarrow> t)
               | Some v \<Rightarrow>
                   if v = [] then (case nameFromTitle body of None \<Rightarrow> JStr [] | Some t \<Rightarrow> t)
                   else JStr v)"
proof -
  show "w1 = (case weightFromFields fmt body of None \<Rightarrow> Fin 0 | Some x \<Rightarrow> x)"
  proof (cases "firstBlock body")
    case None
    then show ?thesis
      using assms
      by (auto simp: embedsPart_def firstBlock_def weightFromFields_def firstFields_def
                     List.map_filter_simps
               split: option.splits if_splits)
  next
    case (Some e)
    then obtain n0 w0 where loop: "fieldsLoop fmt (blockFields e) (JNull, Fin 0) = Inr (n0, w0)"
      and w: "w1 = w0"
      using assms
      by (auto simp: embedsPart_def firstBlock_def blockFields_def
               split: option.splits if_splits sum.splits json.splits)
    from fieldsLoop_last [OF loop] w Some show ?thesis
      by (auto simp: weightFromFields_def firstFields_def split: list.splits)
  qed
  show "n1 = (case nameFromFields fmt body of
                 None \<Rightarrow> (case nameFromTitle body of None \<Rightarrow> JNull | Some t \<Rightarrow> t)
               | Some v \<Rightarrow>
                   if v = [] then (case nameFromTitle body of None \<Rightarrow> JStr [] | Some t \<Rightarrow> t)
                   else JStr v)"
  proof (cases "firstBlock body")
    case None
    then show ?thesis
      using assms
      by (auto simp: embedsPart_def firstBlock_def nameFromFields_def nameFromTitle_def
                     firstFields_def
               split: option.splits if_splits)
  next
    case (Some e)
    then obtain n0 w0 where loop: "fieldsLoop fmt (blockFields e) (JNull, Fin 0) = Inr (n0, w0)"
      and n: "n1 = (case getProp e ''title'' of
                      Some t \<Rightarrow> if \<not> truthy (Some n0) \<and> truthy (Some t) then t else n0
                    | None \<Rightarrow> n0)"
      using assms
      by (auto simp: embedsPart_def firstBlock_def blockFields_def
               split: option.splits if_splits sum.splits json.splits)
    have n0: "n0 = (case filter isFromField (blockFields e) of
                      [] \<Rightarrow> JNull
                    | g # gs \<Rightarrow> JStr (normalise (valueText fmt (last (g # gs)))))"
      using fieldsLoop_last [OF loop] by simp
    show ?thesis
      using n n0 Some
      by (cases "getProp e ''title''")
         (auto simp: nameFromFields_def nameFromTitle_def firstFields_def split: list.splits)
  qed
qed

lemma hatchedFromRx_empty: "rxExec hatchedFromRx [] = None"
  by code_simp

lemma contentPart_char:
  assumes "contentPart body n1 = Inr n2"
  shows "n2 = (if truthy (Some n1) then n1
               else case nameFromContent body of None \<Rightarrow> n1 | Some c \<Rightarrow> JStr c)"
proof (cases "getProp body ''content''")
  case None
  then show ?thesis using assms by (simp add: contentPart_def nameFromContent_def)
next
  case (Some content)
  show ?thesis
  proof (cases "truthy (Some n1)")
    case True
    then show ?thesis using assms Some by (simp add: contentPart_def)
  next
    case False
    show ?thesis
    proof (cases "truthy (Some content)")
      case True
      then show ?thesis
        using assms Some False
        by (auto simp: contentPart_def nameFromContent_def normalise_def
                 split: json.splits option.splits)
    next
      case nt: False
      then have "nameFromContent body = None"
        using Some by (cases content) (auto simp: nameFromContent_def hatchedFromRx_empty)
      then show ?thesis
        using assms Some False nt by (simp add: contentPart_def)
    qed
  qed
qed

text \<open>
  Whenever the interpreter returns, its result is the one the two chains describe.
\<close>

lemma parseWebhookPayload_chains:
  assumes "parseWebhookPayload fmt body = Inr (n, w)"
  shows "n = specName fmt body" and "w = specWeight fmt body"
proof -
  from assms obtain n1 w1 n2 where
    e: "embedsPart fmt body = Inr (n1, w1)" and
    c: "contentPart body n1 = Inr n2" and
    n: "n = (if \<not> truthy (Some n2) then JStr ''Unknown'' else n2)" and
    w: "w = (case rxExec kgRx (stringify fmt body) of
               None \<Rightarrow> w1
             | Some g \<Rightarrow> if \<not> truthyNum w1 then parseFloatArg g else w1)"
    by (auto simp: parseWebhookPayload_def Let_def split: if_splits sum.splits)
  note e1 = embedsPart_char [OF e]
  note c1 = contentPart_char [OF c]
  show "w = specWeight fmt body"
    using w e1(1)
    by (auto simp: specWeight_def weightFromText_def Let_def split: option.splits)
  show "n = specName fmt body"
  proof (cases "truthy (Some n1)")
    case True
    then show ?thesis
      using n c1 e1(2)
      by (auto simp: specName_def laterName_def split: option.splits if_splits)
  next
    case False
    then have n1: "n1 = JNull \<or> n1 = JStr []"
      using e1(2) by (auto simp: nameFromTitle_def split: option.splits if_splits)
    have nt: "nameFromTitle body = None"
      using False e1(2) by (auto simp: nameFromTitle_def split: option.splits if_splits)
    have nf: "nameFromFields fmt body = None \<or> nameFromFields fmt body = Some []"
      using False e1(2) nt by (auto split: option.splits if_splits)
    show ?thesis
      using n c1 False n1 nt nf
      by (auto simp: specName_def laterName_def split: option.splits)
  qed
qed




text \<open>The interpreter never answers with the empty text as the name.\<close>

lemma parseWebhookPayload_name_not_empty:
  "parseWebhookPayload fmt body = Inr (name, w) \<Longrightarrow> name \<noteq> JStr []"
  by (auto simp: parseWebhookPayload_def Let_def split: if_splits sum.splits)



lemma rxMatch_Cap_some: "(g, r) \<in> set (rxMatch (Cap a) s) \<Longrightarrow> g \<noteq> None"
  by auto

lemma rxMatch_Cat_some:
  assumes "\<And>g r s'. (g, r) \<in> set (rxMatch b s') \<Longrightarrow> g \<noteq> None"
    and "(g, r) \<in> set (rxMatch (Cat a b) s)"
  shows "g \<noteq> None"
proof -
  from assms(2) obtain g1 r1 g2 where
    b: "(g2, r) \<in> set (rxMatch b r1)" and g: "g = (case g2 of None \<Rightarrow> g1 | Some x \<Rightarrow> Some x)"
    by auto
  from assms(1) [OF b] g show ?thesis
    by (cases g2) auto
qed

lemma rxExec_in_rxMatch:
  "rxExec r s = Some g \<Longrightarrow> \<exists>rest s'. (g, rest) \<in> set (rxMatch r s')"
proof (induction s)
  case Nil
  show ?case
  proof (cases "rxMatch r []")
    case Nil
    then show ?thesis using Nil.prems by (simp add: rxExec.simps)
  next
    case (Cons p ps)
    then have "(g, snd p) \<in> set (rxMatch r [])"
      using Nil.prems by (cases p) (simp add: rxExec.simps)
    then show ?thesis by blast
  qed
next
  case (Cons c cs)
  show ?case
  proof (cases "rxMatch r (c # cs)")
    case Nil
    then show ?thesis using Cons by (simp add: rxExec.simps)
  next
    case (Cons p ps)
    then have "(g, snd p) \<in> set (rxMatch r (c # cs))"
      using Cons.prems by (cases p) (simp add: rxExec.simps)
    then show ?thesis by blast
  qed
qed

lemma hatchedFromRx_captures: "rxExec hatchedFromRx c \<noteq> Some None"
proof
  assume "rxExec hatchedFromRx c = Some None"
  then obtain rest s' where m: "(None, rest) \<in> set (rxMatch hatchedFromRx s')"
    using rxExec_in_rxMatch by blast
  have "\<And>g r s' a b c d x. (g, r) \<in> set (rxMatch (Cat a (Cat b (Cat c (Cat d (Cap x))))) s')
          \<Longrightarrow> g \<noteq> None"
    by (rule rxMatch_Cat_some, rule rxMatch_Cat_some, rule rxMatch_Cat_some,
        rule rxMatch_Cat_some, rule rxMatch_Cap_some)
  then show False
    using m unfolding hatchedFromRx_def by blast
qed

lemma fieldsLoop_wf:
  "list_all wfField fs \<Longrightarrow> \<exists>n w. fieldsLoop fmt fs (n0, w0) = Inr (n, w)"
proof (induction fs arbitrary: n0 w0)
  case Nil
  then show ?case by simp
next
  case (Cons f fs)
  then have wf: "wfField f" and rest: "list_all wfField fs"
    by simp_all
  from wf obtain kvs where f: "f = JObj kvs"
    by (cases f) (auto simp: wfField_def)
  have "\<exists>nm. fieldName f = Inr nm"
    using wf f by (cases "map_of kvs ''name''" rule: strOrAbsent.cases)
                  (auto simp: wfField_def fieldName_def)
  moreover have "\<exists>v. fieldValue fmt f = Inr v"
    using wf f by (cases "map_of kvs ''value''" rule: strOrAbsent.cases)
                  (auto simp: wfField_def fieldValue_def)
  ultimately show ?case
    using Cons.IH [OF rest] by auto
qed

lemma embedsPart_wf:
  assumes "wellFormed body"
  shows "\<exists>n w. embedsPart fmt body = Inr (n, w)"
proof (cases "getProp body ''embeds''")
  case None
  then show ?thesis by (simp add: embedsPart_def)
next
  case (Some embeds)
  show ?thesis
  proof (cases "embeds \<noteq> JNull \<and> truthy (getProp embeds ''length'')")
    case False
    then show ?thesis using Some by (auto simp: embedsPart_def)
  next
    case True
    then obtain e es where embeds: "embeds = JArr (e # es)" and wfe: "wfEmbed e"
      using assms Some
      by (cases embeds) (auto simp: wellFormed_def split: list.splits)
    from wfe obtain kvs where e: "e = JObj kvs"
      by (cases e) (auto simp: wfEmbed_def)
    have "\<exists>n w. (case getProp e ''fields'' of
                    Some (JArr fs) \<Rightarrow> fieldsLoop fmt fs (JNull, Fin 0)
                  | _ \<Rightarrow> Inr (JNull, Fin 0)) = Inr (n, w)"
      using wfe fieldsLoop_wf [of _ fmt JNull "Fin 0"]
      by (auto simp: wfEmbed_def split: option.splits json.splits)
    then obtain n w where loop:
      "(case getProp e ''fields'' of
          Some (JArr fs) \<Rightarrow> fieldsLoop fmt fs (JNull, Fin 0)
        | _ \<Rightarrow> Inr (JNull, Fin 0)) = Inr (n, w)"
      by blast
    show ?thesis
      using Some True embeds e loop
      by (cases "getProp e ''title''") (auto simp: embedsPart_def)
  qed
qed

lemma contentPart_wf:
  assumes "wellFormed body"
  shows "\<exists>n2. contentPart body n1 = Inr n2"
proof -
  have "strOrAbsent (getProp body ''content'')"
    using assms by (simp add: wellFormed_def)
  then show ?thesis
    using hatchedFromRx_captures
    by (cases "getProp body ''content''" rule: strOrAbsent.cases)
       (auto simp: contentPart_def split: option.splits)
qed

text \<open>
  C9. On every payload of the known shapes (an object whose \<^verbatim>\<open>content\<close> is a string
  and whose first embed is an object with a string \<^verbatim>\<open>title\<close> and a list of fields
  with string \<^verbatim>\<open>name\<close> and \<^verbatim>\<open>value\<close>, each part possibly absent or null) the
  interpreter returns a pair and does not throw; when no strategy extracts anything the
  pair is \<^verbatim>\<open>Unknown\<close> and 0, as it is for the empty object.
\<close>

theorem interpret_total:
  assumes "wellFormed body"
  shows "(\<exists>name w. parseWebhookPayload fmt body = Inr (name, w))
         \<and> ((nameFromFields fmt body = None \<or> nameFromFields fmt body = Some [])
            \<and> nameFromTitle body = None
            \<and> (nameFromContent body = None \<or> nameFromContent body = Some [])
            \<and> weightFromFields fmt body = None
            \<and> weightFromText fmt body = None
            \<longrightarrow> parseWebhookPayload fmt body = Inr (JStr ''Unknown'', Fin 0))
         \<and> parseWebhookPayload fmt (JObj []) = Inr (JStr ''Unknown'', Fin 0)"
proof -
  obtain n1 w1 where e: "embedsPart fmt body = Inr (n1, w1)"
    using embedsPart_wf [OF assms] by blast
  obtain n2 where c: "contentPart body n1 = Inr n2"
    using contentPart_wf [OF assms] by blast
  have notnull: "body \<noteq> JNull"
    using assms by (auto simp: wellFormed_def)
  have total: "\<exists>name w. parseWebhookPayload fmt body = Inr (name, w)"
    using e c notnull by (simp add: parseWebhookPayload_def Let_def)
  then obtain name w where r: "parseWebhookPayload fmt body = Inr (name, w)"
    by blast
  have dflt: "(nameFromFields fmt body = None \<or> nameFromFields fmt body = Some [])
            \<and> nameFromTitle body = None
            \<and> (nameFromContent body = None \<or> nameFromContent body = Some [])
            \<and> weightFromFields fmt body = None
            \<and> weightFromText fmt body = None
            \<longrightarrow> parseWebhookPayload fmt body = Inr (JStr ''Unknown'', Fin 0)"
    using parseWebhookPayload_chains [OF r] r
    by (auto simp: specName_def specWeight_def laterName_def)
  have empty: "parseWebhookPayload fmt (JObj []) = Inr (JStr ''Unknown'', Fin 0)"
    by code_simp
  show ?thesis
    using total dflt empty by blast
qed

theorem interpret_total_witness:
  "wellFormed (JObj [(''embeds'', JArr [JObj [(''title'', JNull),
                                               (''fields'', JArr [JObj [(''value'', JStr ''x'')],
                                                                  JObj []])],
                                         JNull]),
                     (''content'', JStr ''hello''), (''tts'', JBool False)])
   \<and> parseWebhookPayload exampleFormat
        (JObj [(''embeds'', JArr [JObj [(''title'', JNull),
                                        (''fields'', JArr [JObj [(''value'', JStr ''x'')],
                                                           JObj []])],
                                  JNull]),
               (''content'', JStr ''hello''), (''tts'', JBool False)])
      = Inr (JStr ''Unknown'', Fin 0)"
proof -
  let ?body = "JObj [(''embeds'', JArr [JObj [(''title'', JNull),
                                               (''fields'', JArr [JObj [(''value'', JStr ''x'')],
                                                                  JObj []])],
                                         JNull]),
                     (''content'', JStr ''hello''), (''tts'', JBool False)]"
  have wf: "wellFormed ?body"
    by code_simp
  have n1: "nameFromFields exampleFormat ?body = None"
    by code_simp
  have n2: "nameFromTitle ?body = None"
    by code_simp
  have n3: "nameFromContent ?body = None"
    by code_simp
  have n4: "weightFromFields exampleFormat ?body = None"
    by code_simp
  have n5: "weightFromText exampleFormat ?body = None"
    by code_simp
  note total = interpret_total [OF wf, of exampleFormat]
  have "parseWebhookPayload exampleFormat ?body = Inr (JStr ''Unknown'', Fin 0)"
    using conjunct1 [OF conjunct2 [OF total]] n1 n2 n3 n4 n5 by simp
  with wf show ?thesis
    by (rule conjI)
qed




section \<open>Properties of the settings resolver and of the webhook handler\<close>

text \<open>
  C8, as stated, fails: a row with the channel \<^verbatim>\<open>c7\<close>, no timezone and the stored
  multiplier 0 resolves to the default multiplier 1, not to the stored 0, since
  \<^verbatim>\<open>||\<close> takes a zero for an absent value.
\<close>

theorem getSettings_merges_counterexample:
  "storedRow \<lparr>settings = [\<lparr>row_guild_id = ''g1'', row_webhook_channel_id = Some ''c7'',
                              row_timezone_offset = None,
                              row_loss_multiplier = Some (Fin 0)\<rparr>],
               hatch_logs = []\<rparr> ''g1''
     = Some \<lparr>row_guild_id = ''g1'', row_webhook_channel_id = Some ''c7'',
             row_timezone_offset = None, row_loss_multiplier = Some (Fin 0)\<rparr>
   \<and> getSettings exampleEnv
        \<lparr>settings = [\<lparr>row_guild_id = ''g1'', row_webhook_channel_id = Some ''c7'',
                       row_timezone_offset = None,
                       row_loss_multiplier = Some (Fin 0)\<rparr>],
         hatch_logs = []\<rparr> ''g1''
     = \<lparr>webhook_channel_id = Some ''c7'', timezone_offset = ''UTC+0'', loss_multiplier = Fin 1\<rparr>"
  by (simp add: getSettings_def storedRow_def exampleEnv_def)

text \<open>
  C8, amended. With no stored row the resolver returns exactly the process-wide defaults.
  With a stored row every field is resolved on its own: a stored value wins when it is
  present and not empty and, for the multiplier, not zero; otherwise the default stands
  in. So a row whose timezone is null or empty, with a channel that is not empty and a
  multiplier that is not zero, gives the default timezone, the stored channel and the
  stored multiplier.
\<close>

theorem getSettings_merges:
  "(storedRow d g = None \<longrightarrow>
      getSettings env d g =
        \<lparr>webhook_channel_id = WEBHOOK_CHANNEL_ID env, timezone_offset = DEFAULT_TZ env,
         loss_multiplier = DEFAULT_LOSS env\<rparr>)
   \<and> (storedRow d g = Some r \<longrightarrow>
        webhook_channel_id (getSettings env d g) =
          (case row_webhook_channel_id r of
             None \<Rightarrow> WEBHOOK_CHANNEL_ID env
           | Some c \<Rightarrow> if c = [] then WEBHOOK_CHANNEL_ID env else Some c)
        \<and> timezone_offset (getSettings env d g) =
          (case row_timezone_offset r of
             None \<Rightarrow> DEFAULT_TZ env
           | Some t \<Rightarrow> if t = [] then DEFAULT_TZ env else t)
        \<and> loss_multiplier (getSettings env d g) =
          (case row_loss_multiplier r of
             None \<Rightarrow> DEFAULT_LOSS env
           | Some x \<Rightarrow> if truthyNum x then x else DEFAULT_LOSS env))
   \<and> (storedRow d g = Some r
        \<and> (row_timezone_offset r = None \<or> row_timezone_offset r = Some [])
        \<and> row_webhook_channel_id r = Some c \<and> c \<noteq> []
        \<and> row_loss_multiplier r = Some x \<and> truthyNum x \<longrightarrow>
        getSettings env d g =
          \<lparr>webhook_channel_id = Some c, timezone_offset = DEFAULT_TZ env,
           loss_multiplier = x\<rparr>)"
  by (auto simp: getSettings_def storedRow_def split: list.splits)

theorem getSettings_merges_witness:
  "storedRow \<lparr>settings = [\<lparr>row_guild_id = ''g1'', row_webhook_channel_id = Some ''c7'',
                              row_timezone_offset = None,
                              row_loss_multiplier = Some (Fin 2.5)\<rparr>],
               hatch_logs = []\<rparr> ''g1''
     = Some \<lparr>row_guild_id = ''g1'', row_webhook_channel_id = Some ''c7'',
             row_timezone_offset = None, row_loss_multiplier = Some (Fin 2.5)\<rparr>
   \<and> getSettings exampleEnv
        \<lparr>settings = [\<lparr>row_guild_id = ''g1'', row_webhook_channel_id = Some ''c7'',
                       row_timezone_offset = None,
                       row_loss_multiplier = Some (Fin 2.5)\<rparr>],
         hatch_logs = []\<rparr> ''g1''
     = \<lparr>webhook_channel_id = Some ''c7'', timezone_offset = DEFAULT_TZ exampleEnv,
        loss_multiplier = Fin 2.5\<rparr>
   \<and> storedRow emptyDb ''g1'' = None
   \<and> getSettings exampleEnv emptyDb ''g1''
     = \<lparr>webhook_channel_id = None, timezone_offset = ''UTC+0'', loss_multiplier = Fin 1\<rparr>"
proof -
  let ?r = "\<lparr>row_guild_id = ''g1'', row_webhook_channel_id = Some ''c7'',
             row_timezone_offset = None, row_loss_multiplier = Some (Fin 2.5)\<rparr>"
  let ?d = "\<lparr>settings = [?r], hatch_logs = []\<rparr>"
  have s: "storedRow ?d ''g1'' = Some ?r"
    by (simp add: storedRow_def)
  have e: "storedRow emptyDb ''g1'' = None"
    by (simp add: storedRow_def emptyDb_def)
  have t: "truthyNum (Fin 2.5)"
    by simp
  note m1 = getSettings_merges [of ?d "''g1''" exampleEnv ?r "''c7''" "Fin 2.5"]
  note m2 = getSettings_merges [of emptyDb "''g1''" exampleEnv ?r "''c7''" "Fin 2.5"]
  have a: "getSettings exampleEnv ?d ''g1''
             = \<lparr>webhook_channel_id = Some ''c7'', timezone_offset = DEFAULT_TZ exampleEnv,
                loss_multiplier = Fin 2.5\<rparr>"
    using conjunct2 [OF conjunct2 [OF m1]] s t by simp
  have b: "getSettings exampleEnv emptyDb ''g1''
             = \<lparr>webhook_channel_id = None, timezone_offset = ''UTC+0'', loss_multiplier = Fin 1\<rparr>"
    using conjunct1 [OF m2] e by (simp add: exampleEnv_def)
  show ?thesis
    using s a e b by simp
qed

text \<open>
  C6, as stated, fails: a delivery whose payload makes the interpreter throw (here
  \<^verbatim>\<open>{"content": true}\<close>: a content that is no string has no \<^verbatim>\<open>match\<close>) is
  answered 500 and nothing is recorded, although the settings are empty and every
  round trip to the store would succeed.
\<close>

theorem unattributed_event_counterexample:
  "settings emptyDb = []
   \<and> parseWebhookPayload (numberToString exampleLib) (JObj [(''content'', JBool True)])
       = Inl TypeError
   \<and> webhook exampleEnv exampleLib allOk emptyDb (JObj [(''content'', JBool True)])
       = (emptyDb, 500)"
  by code_simp

text \<open>
  C6, amended. For every delivery whose payload the interpreter accepts, when the
  settings table is empty (so that no channel matches and there is no fallback row) and
  the round trips to the store succeed, the event is appended to the log with the guild
  \<^verbatim>\<open>unknown\<close>, the interpreted name and weight and the weight's tier, and the
  response is 200.
\<close>

theorem unattributed_event_recorded:
  assumes "parseWebhookPayload (numberToString l) payload = Inr (name, w)"
    and "settings d = []"
    and "selectOk io" and "fallbackOk io" and "insertOk io"
  shows "webhook env l io d payload =
           (d\<lparr>hatch_logs := hatch_logs d
                 @ [\<lparr>log_guild_id = ''unknown'', egg_name = name, weight = w,
                     rarity = classifyRarity w\<rparr>]\<rparr>,
            200)"
  using assms by (simp add: webhook_def insertLog_def Let_def)

theorem unattributed_event_recorded_witness:
  "parseWebhookPayload (numberToString exampleLib)
      (JObj [(''content'', JStr ''Hatched From: Rare Egg''), (''channel_id'', JStr ''c9'')])
     = Inr (JStr ''Rare'', Fin 0)
   \<and> webhook exampleEnv exampleLib allOk emptyDb
        (JObj [(''content'', JStr ''Hatched From: Rare Egg''), (''channel_id'', JStr ''c9'')])
     = (\<lparr>settings = [],
         hatch_logs = [\<lparr>log_guild_id = ''unknown'', egg_name = JStr ''Rare'', weight = Fin 0,
                         rarity = None\<rparr>]\<rparr>,
        200)"
proof -
  let ?p = "JObj [(''content'', JStr ''Hatched From: Rare Egg''), (''channel_id'', JStr ''c9'')]"
  have h1: "parseWebhookPayload (numberToString exampleLib) ?p = Inr (JStr ''Rare'', Fin 0)"
    by code_simp
  have h2: "settings emptyDb = []"
    by (simp add: emptyDb_def)
  have h3: "selectOk allOk" "fallbackOk allOk" "insertOk allOk"
    by (simp_all add: allOk_def)
  have c: "classifyRarity (Fin 0) = None"
    by (simp add: classifyRarity_Fin)
  from unattributed_event_recorded [OF h1 h2 h3, of exampleEnv] h1 c show ?thesis
    by (simp add: emptyDb_def)
qed






section \<open>Properties of the calendar and of the period resolver\<close>

lemma DaysInYear_ge: "365 \<le> DaysInYear y" "DaysInYear y \<le> 366"
  by (simp_all add: DaysInYear_def)

lemma DayFromYear_mono: "y \<le> z \<Longrightarrow> DayFromYear y \<le> DayFromYear z"
proof (induction z rule: int_ge_induct)
  case base
  then show ?case by simp
next
  case (step i)
  then show ?case
    using DayFromYear_step [of i] DaysInYear_ge(1) [of i] by simp
qed

lemma DayFromYear_1970: "DayFromYear 1970 = 0"
  by (simp add: DayFromYear_def)

lemma yearDown_ge_1970: "0 \<le> d \<Longrightarrow> 1970 \<le> y \<Longrightarrow> 1970 \<le> yearDown d y"
proof (induction d y rule: yearDown.induct)
  case (1 d y)
  show ?case
  proof (cases "DayFromYear y \<le> d")
    case True
    then show ?thesis using "1.prems" by (simp add: yearDown.simps [of d y])
  next
    case False
    then have "y \<noteq> 1970" using "1.prems" DayFromYear_1970 by auto
    then have "1970 \<le> y - 1" using "1.prems" by simp
    then show ?thesis
      using "1.IH" [OF False "1.prems"(1)] False by (simp add: yearDown.simps [of d y])
  qed
qed

lemma Day_nonneg: "0 \<le> t \<Longrightarrow> 0 \<le> Day t"
  by (simp add: Day_def msPerDay_def pos_imp_zdiv_nonneg_iff)

lemma YearFromTime_ge_1970: "0 \<le> t \<Longrightarrow> 1970 \<le> YearFromTime t"
  using yearDown_ge_1970 [of "Day t" "1970 + Day t div 365"] Day_nonneg [of t]
  by (simp add: YearFromTime_def Let_def pos_imp_zdiv_nonneg_iff)

lemma MonthFromTime_range: "0 \<le> MonthFromTime t \<and> MonthFromTime t \<le> 11"
  by (simp add: MonthFromTime_def Let_def)

lemma month_date:
  "daysBeforeMonth (InLeapYear t) (MonthFromTime t) + DateFromTime t - 1 = DayWithinYear t"
  by (simp add: daysBeforeMonth_def DateFromTime_def MonthFromTime_def Let_def)


lemma MakeDay_shift:
  "MakeDay (YearFromTime t) (MonthFromTime t) (DateFromTime t - n) = Day t - n"
proof -
  have m: "MonthFromTime t div 12 = 0" "MonthFromTime t mod 12 = MonthFromTime t"
    using MonthFromTime_range [of t] by (simp_all add: div_pos_pos_trivial mod_pos_pos_trivial)
  have "MakeDay (YearFromTime t) (MonthFromTime t) (DateFromTime t - n)
          = DayFromYear (YearFromTime t)
            + (daysBeforeMonth (InLeapYear t) (MonthFromTime t) + DateFromTime t - 1) - n"
    by (simp add: MakeDay_def m InLeapYear_def)
  also have "\<dots> = Day t - n"
    by (simp only: month_date) (simp add: DayWithinYear_def)
  finally show ?thesis .
qed

lemma time_parts:
  "MakeDate (Day u) (MakeTime (HourFromTime u) (MinFromTime u) (SecFromTime u) (msFromTime u)) = u"
proof -
  define a where "a = u div 1000"
  define b where "b = a div 60"
  define c where "c = b div 60"
  have m: "u div 60000 = b"
    using zdiv_zmult2_eq [of 60 u 1000] by (simp add: a_def b_def)
  have h: "u div 3600000 = c"
    using zdiv_zmult2_eq [of 60 u 60000] m by (simp add: c_def)
  have d: "u div 86400000 = c div 24"
    using zdiv_zmult2_eq [of 24 u 3600000] h by simp
  have e1: "u = a * 1000 + u mod 1000" by (simp add: a_def)
  have e2: "a = b * 60 + a mod 60" by (simp add: b_def)
  have e3: "b = c * 60 + b mod 60" by (simp add: c_def)
  have e4: "c = (c div 24) * 24 + c mod 24" by simp
  have "MakeDate (Day u) (MakeTime (HourFromTime u) (MinFromTime u) (SecFromTime u) (msFromTime u))
          = (c div 24) * 86400000 + (c mod 24) * 3600000 + (b mod 60) * 60000
            + (a mod 60) * 1000 + u mod 1000"
    by (simp add: MakeDate_def MakeTime_def Day_def HourFromTime_def MinFromTime_def
        SecFromTime_def msFromTime_def msPerDay_def msPerHour_def msPerMinute_def
        msPerSecond_def m h d a_def [symmetric])
  also have "\<dots> = u"
    using e1 e2 e3 e4 by linarith
  finally show ?thesis .
qed

lemma shift_hours:
  "MakeDate (Day u) (MakeTime (HourFromTime u - h) (MinFromTime u) (SecFromTime u) (msFromTime u))
     = u - h * msPerHour"
proof -
  have "MakeDate (Day u) (MakeTime (HourFromTime u - h) (MinFromTime u) (SecFromTime u) (msFromTime u))
          = MakeDate (Day u) (MakeTime (HourFromTime u) (MinFromTime u) (SecFromTime u) (msFromTime u))
            - h * msPerHour"
    by (simp add: MakeDate_def MakeTime_def algebra_simps)
  then show ?thesis
    by (simp only: time_parts)
qed

lemma day_parts: "MakeDate (Day u) (TimeWithinDay u) = u"
  by (simp add: MakeDate_def Day_def TimeWithinDay_def)

text \<open>
  \<open>YearFromTime\<close> meets its specification: the year it gives starts at or before the
  day of \<open>t\<close>, and the next year starts after it.
\<close>

lemma DayFromYear_lower:
  "0 \<le> k \<Longrightarrow> 365 * k \<le> DayFromYear (1970 + k)"
proof (induction k rule: int_ge_induct)
  case base
  then show ?case by (simp add: DayFromYear_1970)
next
  case (step i)
  then show ?case
    using DayFromYear_step [of "1970 + i"] DaysInYear_ge(1) [of "1970 + i"]
    by (simp add: add.assoc)
qed

lemma DayFromYear_lower_neg:
  "k \<le> 0 \<Longrightarrow> 366 * k \<le> DayFromYear (1970 + k)"
proof (induction k rule: int_le_induct)
  case base
  then show ?case by (simp add: DayFromYear_1970)
next
  case (step i)
  then show ?case
    using DayFromYear_step [of "1970 + (i - 1)"] DaysInYear_ge(2) [of "1970 + (i - 1)"]
    by (simp add: algebra_simps)
qed

lemma yearDown_spec:
  "d < DayFromYear (y + 1) \<Longrightarrow>
     DayFromYear (yearDown d y) \<le> d \<and> d < DayFromYear (yearDown d y + 1)"
proof (induction d y rule: yearDown.induct)
  case (1 d y)
  show ?case
  proof (cases "DayFromYear y \<le> d")
    case True
    then show ?thesis using "1.prems" by (simp add: yearDown.simps [of d y])
  next
    case False
    then have "d < DayFromYear (y - 1 + 1)" by simp
    from "1.IH" [OF False this] False show ?thesis
      by (simp add: yearDown.simps [of d y])
  qed
qed

lemma YearFromTime_spec:
  "DayFromYear (YearFromTime t) \<le> Day t \<and> Day t < DayFromYear (YearFromTime t + 1)"
proof (cases "0 \<le> Day t")
  case True
  define k where "k = Day t div 365 + 1"
  have k: "0 \<le> k" using True by (simp add: k_def pos_imp_zdiv_nonneg_iff)
  have "Day t < 365 * k"
    using pos_mod_bound [of 365 "Day t"] mult_div_mod_eq [of 365 "Day t"]
    by (simp add: k_def algebra_simps)
  then have "Day t < DayFromYear (1970 + Day t div 365 + 1)"
    using DayFromYear_lower [OF k] by (simp add: k_def add.assoc)
  from yearDown_spec [OF this] True show ?thesis
    by (simp add: YearFromTime_def Let_def)
next
  case False
  define k where "k = Day t div 366 + 1"
  have "Day t div 366 < 0" using False by (simp add: div_neg_pos_less0)
  then have k: "k \<le> 0" by (simp add: k_def)
  have "Day t < 366 * k"
    using pos_mod_bound [of 366 "Day t"] mult_div_mod_eq [of 366 "Day t"]
    by (simp add: k_def algebra_simps)
  then have "Day t < DayFromYear (1970 + Day t div 366 + 1)"
    using DayFromYear_lower_neg [OF k] by (simp add: k_def add.assoc)
  from yearDown_spec [OF this] False show ?thesis
    by (simp add: YearFromTime_def Let_def)
qed

lemma utcMidnight_eq: "utcMidnight t = t - t mod msPerDay"
  by (simp add: utcMidnight_def MakeDate_def Day_def msPerDay_def minus_mod_eq_div_mult)

lemma utcMidnight_range: "0 \<le> t \<Longrightarrow> 0 \<le> utcMidnight t \<and> utcMidnight t \<le> t"
  using zmod_le_nonneg_dividend [of t msPerDay] pos_mod_sign [of msPerDay t]
  by (simp add: utcMidnight_eq msPerDay_def)

lemma localMidnight_value:
  assumes "clockReading now"
  shows "localMidnight (Some h) (Some now) = TimeClip (utcMidnight now - h * msPerHour)"
proof -
  have now: "0 \<le> now" "now \<le> maxTime"
    using assms by (simp_all add: clockReading_def)
  have y: "MakeFullYear (YearFromTime now) = YearFromTime now"
    using YearFromTime_ge_1970 [OF now(1)] by (simp add: MakeFullYear_def)
  have md: "MakeDay (YearFromTime now) (MonthFromTime now) (DateFromTime now) = Day now"
    using MakeDay_shift [of now 0] by simp
  have clip: "TimeClip (utcMidnight now) = Some (utcMidnight now)"
    using utcMidnight_range [OF now(1)] now(2) by (simp add: TimeClip_def)
  have utc: "DateUTC (getUTCFullYear (Some now)) (getUTCMonth (Some now)) (getUTCDate (Some now))
               = Some (utcMidnight now)"
    using clip
    by (simp add: DateUTC_def getUTCFullYear_def getUTCMonth_def getUTCDate_def y md
                  utcMidnight_def)
  have "localMidnight (Some h) (Some now)
          = setUTCHours (Some (utcMidnight now))
                        (Some (HourFromTime (utcMidnight now) - h))"
    by (simp add: localMidnight_def utc newDate_def clip getUTCHours_def jsSub_def)
  also have "\<dots> = TimeClip (utcMidnight now - h * msPerHour)"
    by (simp add: setUTCHours_def shift_hours)
  finally show ?thesis .
qed

text \<open>
  C4. For every offset \<open>h\<close> and every reading \<open>now\<close> of the clock, the cutoff of
  \<^verbatim>\<open>today\<close> is the midnight that starts the UTC day of \<open>now\<close>, less \<open>h\<close> hours
  (\<open>TimeClip\<close> keeps every time value a date can hold). The setting \<^verbatim>\<open>UTC+8\<close> is the
  offset 8, and at 2024-01-15T03:00:00Z the cutoff is 2024-01-14T16:00:00Z.
\<close>

theorem today_cutoff:
  assumes "clockReading now"
  shows "localMidnight (Some h) (Some now) = TimeClip (utcMidnight now - h * msPerHour)
         \<and> Day (utcMidnight now) = Day now \<and> TimeWithinDay (utcMidnight now) = 0
         \<and> (offsetHours (timezone_offset (getSettings env d g)) = Some h \<longrightarrow>
              eggSince env tza True d g ''today'' now
                = Inr (TimeClip (utcMidnight now - h * msPerHour))
              \<and> dailySince env True d g now
                = toISOString (TimeClip (utcMidnight now - h * msPerHour)))
         \<and> offsetHours ''UTC+8'' = Some 8
         \<and> isoFormat 1705287600000 = ''2024-01-15T03:00:00.000Z''
         \<and> localMidnight (Some 8) (Some 1705287600000) = Some 1705248000000
         \<and> isoFormat 1705248000000 = ''2024-01-14T16:00:00.000Z''"
proof -
  note lm = localMidnight_value [OF assms, of h]
  have dm: "Day (utcMidnight now) = Day now" "TimeWithinDay (utcMidnight now) = 0"
    by (simp_all add: utcMidnight_def MakeDate_def Day_def TimeWithinDay_def msPerDay_def)
  have cmd: "offsetHours (timezone_offset (getSettings env d g)) = Some h \<longrightarrow>
              eggSince env tza True d g ''today'' now
                = Inr (TimeClip (utcMidnight now - h * msPerHour))
              \<and> dailySince env True d g now
                = toISOString (TimeClip (utcMidnight now - h * msPerHour))"
    using lm by (simp add: eggSince_def dailySince_def)
  have e1: "offsetHours ''UTC+8'' = Some 8"
    by code_simp
  have e2: "isoFormat 1705287600000 = ''2024-01-15T03:00:00.000Z''"
    by code_simp
  have e3: "localMidnight (Some 8) (Some 1705287600000) = Some 1705248000000"
    by code_simp
  have e4: "isoFormat 1705248000000 = ''2024-01-14T16:00:00.000Z''"
    by code_simp
  show ?thesis
    using lm dm cmd e1 e2 e3 e4 by simp
qed

theorem today_cutoff_witness:
  "clockReading 1705359599999
   \<and> localMidnight (Some (- 5)) (Some 1705359599999) = Some 1705294800000
   \<and> isoFormat 1705359599999 = ''2024-01-15T22:59:59.999Z''
   \<and> isoFormat 1705294800000 = ''2024-01-15T05:00:00.000Z''
   \<and> offsetHours (timezone_offset (getSettings exampleEnv
         \<lparr>settings = [\<lparr>row_guild_id = ''g1'', row_webhook_channel_id = Some ''c7'',
                        row_timezone_offset = Some ''utc-5'', row_loss_multiplier = None\<rparr>],
          hatch_logs = []\<rparr> ''g1'')) = Some (- 5)
   \<and> dailySince exampleEnv True
         \<lparr>settings = [\<lparr>row_guild_id = ''g1'', row_webhook_channel_id = Some ''c7'',
                        row_timezone_offset = Some ''utc-5'', row_loss_multiplier = None\<rparr>],
          hatch_logs = []\<rparr> ''g1'' 1705359599999
       = Inr ''2024-01-15T05:00:00.000Z''"
proof -
  let ?d = "\<lparr>settings = [\<lparr>row_guild_id = ''g1'', row_webhook_channel_id = Some ''c7'',
                          row_timezone_offset = Some ''utc-5'', row_loss_multiplier = None\<rparr>],
            hatch_logs = []\<rparr>"
  have c: "clockReading 1705359599999"
    by (simp add: clockReading_def maxTime_def)
  have m: "TimeClip (utcMidnight 1705359599999 - (- 5) * msPerHour) = Some 1705294800000"
    by code_simp
  have i1: "isoFormat 1705359599999 = ''2024-01-15T22:59:59.999Z''"
    by code_simp
  have i2: "isoFormat 1705294800000 = ''2024-01-15T05:00:00.000Z''"
    by code_simp
  have o: "offsetHours (timezone_offset (getSettings exampleEnv ?d ''g1'')) = Some (- 5)"
    by code_simp
  note t = today_cutoff [OF c, of "- 5" exampleEnv ?d "''g1''" 0]
  have a: "localMidnight (Some (- 5)) (Some 1705359599999) = Some 1705294800000"
    using conjunct1 [OF t] m by simp
  have b: "dailySince exampleEnv True ?d ''g1'' 1705359599999 = Inr ''2024-01-15T05:00:00.000Z''"
    using conjunct1 [OF conjunct2 [OF conjunct2 [OF conjunct2 [OF t]]]] o m i2
    by (simp add: toISOString_def)
  show ?thesis
    using c a i1 i2 o b by simp
qed

text \<open>
  Before the year 100 the cutoff of \<^verbatim>\<open>today\<close> is not that midnight, since
  \<^verbatim>\<open>Date.UTC\<close> reads the year 50 as 1950: from 0050-06-15T12:00:00Z the code goes to
  1950-06-15T00:00:00Z. No clock of a running service reads such a time.
\<close>

lemma localMidnight_year_50:
  "isoFormat (- 60574996800000) = ''0050-06-15T12:00:00.000Z''
   \<and> localMidnight (Some 0) (Some (- 60574996800000)) = Some (- 616896000000)
   \<and> isoFormat (- 616896000000) = ''1950-06-15T00:00:00.000Z''"
  by code_simp


lemma setDate_back:
  "setDate tza (Some now) (jsSub (getDate tza (Some now)) (Some n))
     = TimeClip (now - n * msPerDay)"
proof -
  have "MakeDate (Day (now + tza) - n) (TimeWithinDay (now + tza)) - tza
          = MakeDate (Day (now + tza)) (TimeWithinDay (now + tza)) - n * msPerDay - tza"
    by (simp add: MakeDate_def algebra_simps)
  also have "\<dots> = now - n * msPerDay"
    by (simp only: day_parts)
  finally show ?thesis
    by (simp add: setDate_def getDate_def jsSub_def Let_def MakeDay_shift)
qed

text \<open>
  What the branch of the tokens that end in \<^verbatim>\<open>d\<close> does: it goes back as many days
  as \<^verbatim>\<open>parseInt\<close> reads at the head of the token, and yields the invalid date when
  \<^verbatim>\<open>parseInt\<close> reads no number; the conversion to text then throws.
\<close>

lemma eggSince_days:
  assumes "period \<noteq> ''today''" and "endsWith period ''d''"
  shows "eggSince env tza storeOk d g period now =
           Inr (case parseInt period None of
                  None \<Rightarrow> None
                | Some n \<Rightarrow> TimeClip (now - n * msPerDay))"
proof (cases "parseInt period None")
  case None
  then show ?thesis
    using assms by (simp add: eggSince_def setDate_def jsSub_def getDate_def)
next
  case (Some n)
  then show ?thesis
    using assms setDate_back [of tza now n] by (simp add: eggSince_def)
qed

lemma eggSinceTs_days_nan:
  assumes "period \<noteq> ''today''" and "endsWith period ''d''" and "parseInt period None = None"
  shows "eggSinceTs env tza storeOk d g period now = Inl RangeError"
  using eggSince_days [OF assms(1,2)] assms(3) by (simp add: eggSinceTs_def toISOString_def)




end
